theory Spec2Isabelle
  imports Main "HOL-Library.AList"
begin

section \<open>JavaScript values\<close>

text \<open>
  A JavaScript string is a sequence of UTF-16 code units. It is modelled as the list of
  its code units, each a natural number below \<open>2^16\<close>; \<open>js ''abc''\<close> is the
  string with the code units of the ASCII text \<open>abc\<close>.
\<close>

type_synonym jsstring = "nat list"

definition js :: "string \<Rightarrow> jsstring" where
  "js s = map of_char s"

text \<open>
  A value parsed from JSON. An object is the list of its properties, each key once, in
  the order in which \<open>Object.keys\<close> and \<open>JSON.stringify\<close> take them: the
  integer-like keys in ascending order, then the other keys in the order of their
  insertion. Numbers are restricted to the integers.
\<close>

datatype json =
    JNull
  | JBool bool
  | JNum int
  | JStr jsstring
  | JArr "json list"
  | JObj "(jsstring \<times> json) list"

text \<open>
  A thrown value: its \<open>message\<close>, its \<open>stack\<close> (the first line of it: the
  frames are left out) and its own enumerable properties, such as \<open>code\<close>.
\<close>

record js_error =
  err_message :: jsstring
  err_stack :: jsstring
  err_props :: "(jsstring \<times> json) list"

text \<open>
  The errors of the runtime: \<open>new Error(message)\<close>, a \<open>TypeError\<close>, a
  \<open>URIError\<close>, and an error of Node with a code, whose name is followed by the code
  in brackets. None has an enumerable property of its own.
\<close>

definition named_error :: "jsstring \<Rightarrow> jsstring \<Rightarrow> js_error" where
  "named_error name message =
     \<lparr> err_message = message, err_stack = name @ js '': '' @ message, err_props = [] \<rparr>"

definition Error :: "jsstring \<Rightarrow> js_error" where
  "Error message = named_error (js ''Error'') message"

definition TypeError :: "jsstring \<Rightarrow> js_error" where
  "TypeError message = named_error (js ''TypeError'') message"

definition URIError :: js_error where
  "URIError = named_error (js ''URIError'') (js ''URI malformed'')"

definition NodeTypeError :: "jsstring \<Rightarrow> jsstring \<Rightarrow> js_error" where
  "NodeTypeError code message = named_error (js ''TypeError ['' @ code @ js '']'') message"

section \<open>lsp-conversion.ts: convertHover\<close>

text \<open>
  \<open>Range\<close> and \<open>Position\<close> of vscode-languageserver-types.
\<close>

record Position =
  line :: int
  character :: int

record Range =
  range_start :: Position
  range_end :: Position

text \<open>
  \<open>sourcegraph.Range\<close> and \<open>sourcegraph.Position\<close> are classes of the Sourcegraph
  extension API, not of this repository. Modelled from the documentation of that API:
  \<open>new Position(line, character)\<close> throws an illegal-argument error for a negative
  line and for a negative character; \<open>new Range(startLine, startCharacter, endLine,
  endCharacter)\<close> makes the two positions and keeps them in order: when the first is
  not before the second, the two are exchanged.
\<close>

record sourcegraph_Position =
  sg_line :: int
  sg_character :: int

record sourcegraph_Range =
  sg_start :: sourcegraph_Position
  sg_end :: sourcegraph_Position

definition illegalArgument :: "jsstring \<Rightarrow> js_error" where
  "illegalArgument name = Error (js ''Illegal argument: '' @ name)"

definition new_Position :: "int \<Rightarrow> int \<Rightarrow> js_error + sourcegraph_Position" where
  "new_Position l c =
     (if l < 0 then Inl (illegalArgument (js ''line must be non-negative''))
      else if c < 0 then Inl (illegalArgument (js ''character must be non-negative''))
      else Inr \<lparr> sg_line = l, sg_character = c \<rparr>)"

definition isBefore :: "sourcegraph_Position \<Rightarrow> sourcegraph_Position \<Rightarrow> bool" where
  "isBefore p other =
     (if sg_line p < sg_line other then True
      else if sg_line other < sg_line p then False
      else sg_character p < sg_character other)"

definition new_Range :: "int \<Rightarrow> int \<Rightarrow> int \<Rightarrow> int \<Rightarrow> js_error + sourcegraph_Range" where
  "new_Range startLine startCharacter endLine endCharacter =
     (case new_Position startLine startCharacter of
        Inl err \<Rightarrow> Inl err
      | Inr p \<Rightarrow>
          (case new_Position endLine endCharacter of
             Inl err \<Rightarrow> Inl err
           | Inr q \<Rightarrow>
               if isBefore p q then Inr \<lparr> sg_start = p, sg_end = q \<rparr>
               else Inr \<lparr> sg_start = q, sg_end = p \<rparr>))"

text \<open>\<open>convertRange\<close> (lines 4 to 6).\<close>

definition convertRange :: "Range \<Rightarrow> js_error + sourcegraph_Range" where
  "convertRange r =
     new_Range (line (range_start r)) (character (range_start r))
       (line (range_end r)) (character (range_end r))"

text \<open>
  \<open>Hover.contents\<close> is \<open>MarkupContent | MarkedString | MarkedString[]\<close>, where a
  \<open>MarkedString\<close> is a string or an object \<open>{ language, value }\<close>. One entry:
\<close>

datatype MarkupKind = PlainText | Markdown

datatype content =
    MarkupContent MarkupKind jsstring
  | MarkedText jsstring
  | MarkedCode jsstring jsstring

datatype hover_contents = One content | Many "content list"

record Hover =
  contents :: hover_contents
  hover_range :: "Range option"

record sourcegraph_MarkupContent =
  kind :: MarkupKind
  "value" :: jsstring

record sourcegraph_Hover =
  sg_range :: "sourcegraph_Range option"
  sg_contents :: sourcegraph_MarkupContent

text \<open>The dynamic tests of the source: \<open>MarkupContent.is\<close> and \<open>typeof content === 'string'\<close>.\<close>

fun MarkupContent_is :: "content \<Rightarrow> bool" where
  "MarkupContent_is (MarkupContent k v) = True"
| "MarkupContent_is _ = False"

fun is_string :: "content \<Rightarrow> bool" where
  "is_string (MarkedText s) = True"
| "is_string _ = False"

fun content_value :: "content \<Rightarrow> jsstring" where
  "content_value (MarkupContent k v) = v"
| "content_value (MarkedText s) = s"
| "content_value (MarkedCode l v) = v"

fun content_language :: "content \<Rightarrow> jsstring" where
  "content_language (MarkedCode l v) = l"
| "content_language _ = []"

text \<open>The callback given to \<open>.map\<close> (lines 18 to 30).\<close>

definition contentString :: "content \<Rightarrow> jsstring" where
  "contentString c =
     (if MarkupContent_is c then content_value c
      else if is_string c then content_value c
      else if content_value c = [] then []
      else js ''```'' @ content_language c @ js [CHR 0x0A] @ content_value c @ js [CHR 0x0A] @ js ''```'')"

text \<open>
  \<open>String.prototype.trim\<close> removes the code units of WhiteSpace and LineTerminator
  from both ends.
\<close>

definition is_whitespace :: "nat \<Rightarrow> bool" where
  "is_whitespace c \<longleftrightarrow>
     c \<in> {0x09, 0x0A, 0x0B, 0x0C, 0x0D, 0x20, 0xA0, 0x1680, 0x2028, 0x2029, 0x202F, 0x205F,
          0x3000, 0xFEFF}
     \<or> (0x2000 \<le> c \<and> c \<le> 0x200A)"

definition trim :: "jsstring \<Rightarrow> jsstring" where
  "trim s = rev (dropWhile is_whitespace (rev (dropWhile is_whitespace s)))"

text \<open>
  \<open>Array.prototype.join\<close>: the result starts empty; every element but the first is
  preceded by the separator.
\<close>

fun join_loop :: "jsstring \<Rightarrow> jsstring \<Rightarrow> nat \<Rightarrow> jsstring list \<Rightarrow> jsstring" where
  "join_loop sep R k [] = R"
| "join_loop sep R k (x # xs) = join_loop sep ((if k > 0 then R @ sep else R) @ x) (Suc k) xs"

definition join :: "jsstring list \<Rightarrow> jsstring \<Rightarrow> jsstring" where
  "join xs sep = join_loop sep [] 0 xs"

definition hover_separator :: jsstring where
  "hover_separator = js [CHR 0x0A, CHR 0x0A, CHR ''-'', CHR ''-'', CHR ''-'', CHR 0x0A, CHR 0x0A]"

text \<open>
  \<open>convertHover\<close> (lines 8 to 35). The object literal evaluates \<open>range\<close> first,
  so what \<open>convertRange\<close> throws leaves the function before the contents are read.
\<close>

definition convertHover :: "Hover option \<Rightarrow> js_error + sourcegraph_Hover option" where
  "convertHover hover =
     (case hover of
        None \<Rightarrow> Inr None
      | Some h \<Rightarrow>
          let cs = (case contents h of Many xs \<Rightarrow> xs | One c \<Rightarrow> [c]) in
          (case (case hover_range h of
                   None \<Rightarrow> Inr None
                 | Some r \<Rightarrow> (case convertRange r of Inl err \<Rightarrow> Inl err | Inr r' \<Rightarrow> Inr (Some r'))) of
             Inl err \<Rightarrow> Inl err
           | Inr rng \<Rightarrow>
               Inr (Some \<lparr> sg_range = rng,
                     sg_contents =
                       \<lparr> kind = Markdown,
                         value = join (filter (\<lambda>str. trim str \<noteq> []) (map contentString cs))
                                      hover_separator \<rparr> \<rparr>)))"

subsection \<open>The rendering as the specification words it\<close>

text \<open>
  Each entry is rendered: a MarkupContent value as it is, a plain string as it is, an
  entry with an empty value as the empty string, language-tagged code fenced in triple
  backticks. Entries that are empty or hold only whitespace are dropped, and the rest
  are joined with the separator between neighbours.
\<close>

fun rendered :: "content \<Rightarrow> jsstring" where
  "rendered (MarkupContent k v) = v"
| "rendered (MarkedText s) = s"
| "rendered (MarkedCode l []) = []"
| "rendered (MarkedCode l v) = js ''```'' @ l @ [0x0A] @ v @ [0x0A] @ js ''```''"

definition whitespace_only :: "jsstring \<Rightarrow> bool" where
  "whitespace_only s = list_all is_whitespace s"

fun separated :: "jsstring \<Rightarrow> jsstring list \<Rightarrow> jsstring" where
  "separated sep [] = []"
| "separated sep [x] = x"
| "separated sep (x # y # ys) = x @ sep @ separated sep (y # ys)"

definition entries :: "Hover \<Rightarrow> content list" where
  "entries h = (case contents h of One c \<Rightarrow> [c] | Many xs \<Rightarrow> xs)"

definition hover_markdown :: "Hover \<Rightarrow> jsstring" where
  "hover_markdown h =
     separated [0x0A, 0x0A, 0x2D, 0x2D, 0x2D, 0x0A, 0x0A]
       (filter (\<lambda>s. \<not> whitespace_only s) (map rendered (entries h)))"

text \<open>A range that the constructor takes: no negative line or character.\<close>

definition accepted_range :: "Range \<Rightarrow> bool" where
  "accepted_range r \<longleftrightarrow>
     0 \<le> line (range_start r) \<and> 0 \<le> character (range_start r)
     \<and> 0 \<le> line (range_end r) \<and> 0 \<le> character (range_end r)"

definition accepted_hover :: "Hover \<Rightarrow> bool" where
  "accepted_hover h = (case hover_range h of None \<Rightarrow> True | Some r \<Rightarrow> accepted_range r)"

section \<open>server.ts: the cleanup registry\<close>

text \<open>
  A \<open>CleanupFn\<close> is a function of no argument that acts on the world and may throw;
  here it maps the world to what it threw, if anything, and the world it leaves.
  \<open>cleanupAll\<close> awaits each function of the iterable in its order and logs what one
  throws with \<open>console.error\<close>; the second component is the console.
\<close>

type_synonym 'w CleanupFn = "'w \<Rightarrow> js_error option \<times> 'w"

fun cleanupAll :: "'w CleanupFn list \<Rightarrow> 'w \<times> js_error list \<Rightarrow> 'w \<times> js_error list" where
  "cleanupAll [] (w, console) = (w, console)"
| "cleanupAll (cleanup # cleanupFns) (w, console) =
     (case cleanup w of
        (None, w') \<Rightarrow> cleanupAll cleanupFns (w', console)
      | (Some err, w') \<Rightarrow> cleanupAll cleanupFns (w', console @ [err]))"

text \<open>
  The per-connection registry \<open>connectionCleanupFns\<close> is an array. The source registers
  with \<open>push\<close> (lines 187 and 255) and with \<open>unshift\<close> (line 317).
\<close>

datatype 'a registration = Push 'a | Unshift 'a

fun register :: "'a list \<Rightarrow> 'a registration \<Rightarrow> 'a list" where
  "register fns (Push f) = fns @ [f]"
| "register fns (Unshift f) = f # fns"

definition registered :: "'a registration list \<Rightarrow> 'a list" where
  "registered regs = foldl register [] regs"

text \<open>
  To observe a run, the world is the list of the actions run so far: action \<open>i\<close>
  appends \<open>i\<close> and then throws \<open>e\<close>, if any.
\<close>

definition traced :: "'i \<times> js_error option \<Rightarrow> ('i list) CleanupFn" where
  "traced a = (\<lambda>w. (snd a, w @ [fst a]))"

fun pushes :: "'a registration list \<Rightarrow> 'a list" where
  "pushes [] = []"
| "pushes (Push f # regs) = f # pushes regs"
| "pushes (Unshift f # regs) = pushes regs"

fun unshifts :: "'a registration list \<Rightarrow> 'a list" where
  "unshifts [] = []"
| "unshifts (Push f # regs) = unshifts regs"
| "unshifts (Unshift f # regs) = f # unshifts regs"

fun thrown :: "('i \<times> js_error option) list \<Rightarrow> js_error list" where
  "thrown [] = []"
| "thrown ((i, None) # as) = thrown as"
| "thrown ((i, Some e) # as) = e # thrown as"

section \<open>URL objects\<close>

text \<open>
  A \<open>URL\<close> object of Node's url module, by its components as the URL Standard
  serializes them: \<open>protocol\<close> ends with the colon, \<open>userinfo\<close> is empty or ends
  with \<open>@\<close>, \<open>port\<close> is empty or starts with a colon, a null host, query or
  fragment is \<open>None\<close>. The getters \<open>hostname\<close>, \<open>hash\<close> and \<open>href\<close> and the
  setters of \<open>hash\<close> and \<open>pathname\<close> follow the URL Standard; the parser itself
  (\<open>new URL(string)\<close>) is taken from outside, see \<open>env\<close>.
\<close>

record URL =
  protocol :: jsstring
  userinfo :: jsstring
  host :: "jsstring option"
  port :: jsstring
  opaque_path :: bool
  pathname :: jsstring
  query :: "jsstring option"
  fragment :: "jsstring option"

definition hostname :: "URL \<Rightarrow> jsstring" where
  "hostname u = (case host u of None \<Rightarrow> [] | Some h \<Rightarrow> h)"

definition hash :: "URL \<Rightarrow> jsstring" where
  "hash u = (case fragment u of None \<Rightarrow> [] | Some f \<Rightarrow> if f = [] then [] else 0x23 # f)"

definition href :: "URL \<Rightarrow> jsstring" where
  "href u =
     protocol u
     @ (case host u of None \<Rightarrow> [] | Some h \<Rightarrow> js ''//'' @ userinfo u @ h @ port u)
     @ pathname u
     @ (case query u of None \<Rightarrow> [] | Some q \<Rightarrow> 0x3F # q)
     @ (case fragment u of None \<Rightarrow> [] | Some f \<Rightarrow> 0x23 # f)"

definition is_special :: "URL \<Rightarrow> bool" where
  "is_special u \<longleftrightarrow>
     protocol u \<in> {js ''ftp:'', js ''file:'', js ''gopher:'', js ''http:'', js ''https:'', js ''ws:'', js ''wss:''}"

subsection \<open>Percent-encoding\<close>

text \<open>
  A string is read as its scalar values (a lone surrogate is U+FFFD); a code point of
  the encode set is replaced by the escapes of its UTF-8 bytes.
\<close>

definition is_lead_surrogate :: "nat \<Rightarrow> bool" where
  "is_lead_surrogate c \<longleftrightarrow> 0xD800 \<le> c \<and> c \<le> 0xDBFF"

definition is_trail_surrogate :: "nat \<Rightarrow> bool" where
  "is_trail_surrogate c \<longleftrightarrow> 0xDC00 \<le> c \<and> c \<le> 0xDFFF"

fun scalar_values :: "jsstring \<Rightarrow> nat list" where
  "scalar_values [] = []"
| "scalar_values [c] = [if is_lead_surrogate c \<or> is_trail_surrogate c then 0xFFFD else c]"
| "scalar_values (c # d # cs) =
     (if is_lead_surrogate c \<and> is_trail_surrogate d
      then (0x10000 + (c - 0xD800) * 0x400 + (d - 0xDC00)) # scalar_values cs
      else (if is_lead_surrogate c \<or> is_trail_surrogate c then 0xFFFD else c) # scalar_values (d # cs))"

definition utf8_encode :: "nat \<Rightarrow> nat list" where
  "utf8_encode c =
     (if c < 0x80 then [c]
      else if c < 0x800 then [0xC0 + c div 64, 0x80 + c mod 64]
      else if c < 0x10000 then [0xE0 + c div 4096, 0x80 + (c div 64) mod 64, 0x80 + c mod 64]
      else [0xF0 + c div 262144, 0x80 + (c div 4096) mod 64, 0x80 + (c div 64) mod 64, 0x80 + c mod 64])"

definition hex_digit :: "nat \<Rightarrow> nat" where
  "hex_digit n = (if n < 10 then 0x30 + n else 0x37 + n)"

definition percent_encode_byte :: "nat \<Rightarrow> jsstring" where
  "percent_encode_byte b = [0x25, hex_digit (b div 16), hex_digit (b mod 16)]"

definition C0_control_set :: "nat \<Rightarrow> bool" where
  "C0_control_set c \<longleftrightarrow> c < 0x20 \<or> 0x7E < c"

definition fragment_set :: "nat \<Rightarrow> bool" where
  "fragment_set c \<longleftrightarrow> C0_control_set c \<or> c \<in> {0x20, 0x22, 0x3C, 0x3E, 0x60}"

definition path_set :: "nat \<Rightarrow> bool" where
  "path_set c \<longleftrightarrow> fragment_set c \<or> c \<in> {0x23, 0x3F, 0x7B, 0x7D}"

definition utf8_percent_encode :: "(nat \<Rightarrow> bool) \<Rightarrow> jsstring \<Rightarrow> jsstring" where
  "utf8_percent_encode encode_set s =
     concat (map (\<lambda>c. if encode_set c then concat (map percent_encode_byte (utf8_encode c)) else [c])
       (scalar_values s))"

definition is_tab_or_newline :: "nat \<Rightarrow> bool" where
  "is_tab_or_newline c \<longleftrightarrow> c \<in> {0x09, 0x0A, 0x0D}"

subsection \<open>The hash and pathname setters\<close>

text \<open>
  The hash setter: the empty string removes the fragment; otherwise one leading
  \<open>#\<close> is dropped, tabs, newlines and NUL are skipped and the rest is encoded with
  the fragment set. The pathname setter runs the path state of the URL parser: the
  input is cut at slashes (for a special scheme also at backslashes), each segment is
  encoded with the path set, and dot segments are resolved.
\<close>

definition set_hash :: "URL \<Rightarrow> jsstring \<Rightarrow> URL" where
  "set_hash u v =
     (if v = [] then u\<lparr> fragment := None \<rparr>
      else
        let input = (case v of c # cs \<Rightarrow> if c = 0x23 then cs else v | [] \<Rightarrow> []);
            input = filter (\<lambda>c. \<not> is_tab_or_newline c \<and> c \<noteq> 0) input
        in u\<lparr> fragment := Some (utf8_percent_encode fragment_set input) \<rparr>)"

fun split_on :: "(nat \<Rightarrow> bool) \<Rightarrow> jsstring \<Rightarrow> jsstring list" where
  "split_on sep [] = [[]]"
| "split_on sep (c # cs) =
     (if sep c then [] # split_on sep cs
      else (case split_on sep cs of s # ss \<Rightarrow> (c # s) # ss | [] \<Rightarrow> [[c]]))"

definition ascii_lower :: "jsstring \<Rightarrow> jsstring" where
  "ascii_lower s = map (\<lambda>c. if 0x41 \<le> c \<and> c \<le> 0x5A then c + 0x20 else c) s"

definition is_single_dot :: "jsstring \<Rightarrow> bool" where
  "is_single_dot s \<longleftrightarrow> ascii_lower s \<in> {js ''.'', js ''%2e''}"

definition is_double_dot :: "jsstring \<Rightarrow> bool" where
  "is_double_dot s \<longleftrightarrow> ascii_lower s \<in> {js ''..'', js ''.%2e'', js ''%2e.'', js ''%2e%2e''}"

definition is_ascii_alpha :: "nat \<Rightarrow> bool" where
  "is_ascii_alpha c \<longleftrightarrow> (0x41 \<le> c \<and> c \<le> 0x5A) \<or> (0x61 \<le> c \<and> c \<le> 0x7A)"

fun is_windows_drive_letter :: "jsstring \<Rightarrow> bool" where
  "is_windows_drive_letter [a, b] = (is_ascii_alpha a \<and> (b = 0x3A \<or> b = 0x7C))"
| "is_windows_drive_letter _ = False"

fun is_normalized_windows_drive_letter :: "jsstring \<Rightarrow> bool" where
  "is_normalized_windows_drive_letter [a, b] = (is_ascii_alpha a \<and> b = 0x3A)"
| "is_normalized_windows_drive_letter _ = False"

definition shorten_path :: "bool \<Rightarrow> jsstring list \<Rightarrow> jsstring list" where
  "shorten_path is_file path =
     (if is_file \<and> length path = 1 \<and> is_normalized_windows_drive_letter (hd path) then path
      else butlast path)"

fun path_state :: "bool \<Rightarrow> jsstring list \<Rightarrow> jsstring list \<Rightarrow> jsstring list" where
  "path_state is_file path [] = path"
| "path_state is_file path (seg # rest) =
     (let buffer = utf8_percent_encode path_set seg;
          at_end = (rest = [])
      in path_state is_file
           (if is_double_dot buffer then
              (if at_end then shorten_path is_file path @ [[]] else shorten_path is_file path)
            else if is_single_dot buffer then
              (if at_end then path @ [[]] else path)
            else
              path @ [if is_file \<and> path = [] \<and> is_windows_drive_letter buffer
                      then [hd buffer, 0x3A] else buffer])
           rest)"

definition serialize_path :: "jsstring list \<Rightarrow> jsstring" where
  "serialize_path path = concat (map (\<lambda>s. 0x2F # s) path)"

definition set_pathname :: "URL \<Rightarrow> jsstring \<Rightarrow> URL" where
  "set_pathname u v =
     (if opaque_path u then u
      else
        let input = filter (\<lambda>c. \<not> is_tab_or_newline c) v;
            is_file = (protocol u = js ''file:'')
        in if is_special u then
             let input = (case input of c # cs \<Rightarrow> if c = 0x2F \<or> c = 0x5C then cs else input | [] \<Rightarrow> [])
             in u\<lparr> pathname := serialize_path
                     (path_state is_file [] (split_on (\<lambda>c. c = 0x2F \<or> c = 0x5C) input)) \<rparr>
           else if input = [] then u\<lparr> pathname := [] \<rparr>
           else
             let input = (case input of c # cs \<Rightarrow> if c = 0x2F then cs else input | [] \<Rightarrow> [])
             in u\<lparr> pathname := serialize_path
                     (path_state is_file [] (split_on (\<lambda>c. c = 0x2F) input)) \<rparr>)"

section \<open>The path module (POSIX)\<close>

text \<open>
  Node's \<open>path\<close> on a POSIX platform. \<open>normalizeString\<close> resolves the segments
  between slashes: an empty segment and \<open>.\<close> are skipped, \<open>..\<close> removes the last
  segment kept (unless that is \<open>..\<close> or nothing is kept, where it is kept itself if the
  path may rise above its root).
\<close>

definition normalize_step :: "bool \<Rightarrow> jsstring list \<Rightarrow> jsstring \<Rightarrow> jsstring list" where
  "normalize_step allowAboveRoot res seg =
     (if seg = [] \<or> seg = js ''.'' then res
      else if seg = js ''..'' then
        (if res \<noteq> [] \<and> last res \<noteq> js ''..'' then butlast res
         else if allowAboveRoot then res @ [js ''..'']
         else res)
      else res @ [seg])"

definition normalizeString :: "jsstring \<Rightarrow> bool \<Rightarrow> jsstring" where
  "normalizeString path allowAboveRoot =
     join (foldl (normalize_step allowAboveRoot) [] (split_on (\<lambda>c. c = 0x2F) path)) (js ''/'')"

definition path_normalize :: "jsstring \<Rightarrow> jsstring" where
  "path_normalize path =
     (if path = [] then js ''.''
      else
        let isAbsolute = (hd path = 0x2F);
            trailingSeparator = (last path = 0x2F);
            p = normalizeString path (\<not> isAbsolute)
        in if p = [] then (if isAbsolute then js ''/'' else if trailingSeparator then js ''./'' else js ''.'')
           else
             let p = (if trailingSeparator then p @ js ''/'' else p)
             in if isAbsolute then 0x2F # p else p)"

definition path_join :: "jsstring list \<Rightarrow> jsstring" where
  "path_join args =
     (let joined = join (filter (\<lambda>arg. arg \<noteq> []) args) (js ''/'')
      in if joined = [] then js ''.'' else path_normalize joined)"

text \<open>\<open>path.resolve\<close> of one path; \<open>cwd\<close> is \<open>process.cwd()\<close>, an absolute path.\<close>

definition path_resolve :: "jsstring \<Rightarrow> jsstring \<Rightarrow> jsstring" where
  "path_resolve cwd path =
     (let resolvedPath =
            (if path = [] then cwd @ js ''/''
             else if hd path = 0x2F then path @ js ''/''
             else cwd @ js ''/'' @ path @ js ''/'')
      in 0x2F # normalizeString resolvedPath False)"

fun common_prefix_length :: "jsstring list \<Rightarrow> jsstring list \<Rightarrow> nat" where
  "common_prefix_length (x # xs) (y # ys) = (if x = y then Suc (common_prefix_length xs ys) else 0)"
| "common_prefix_length _ _ = 0"

definition path_segments :: "jsstring \<Rightarrow> jsstring list" where
  "path_segments resolved = filter (\<lambda>s. s \<noteq> []) (split_on (\<lambda>c. c = 0x2F) resolved)"

text \<open>
  \<open>path.relative\<close>: both paths are resolved; the result climbs with \<open>..\<close> from
  \<open>from\<close> to the last common directory and descends to \<open>to\<close>.
\<close>

definition path_relative :: "jsstring \<Rightarrow> jsstring \<Rightarrow> jsstring \<Rightarrow> jsstring" where
  "path_relative cwd from to =
     (if from = to then []
      else
        let from = path_resolve cwd from; to = path_resolve cwd to
        in if from = to then []
           else
             let fs = path_segments from; ts = path_segments to;
                 n = common_prefix_length fs ts
             in join (replicate (length fs - n) (js ''..'') @ drop n ts) (js ''/''))"

definition path_dirname :: "jsstring \<Rightarrow> jsstring" where
  "path_dirname path =
     (if path = [] then js ''.''
      else
        let hasRoot = (hd path = 0x2F);
            body = rev (dropWhile (\<lambda>c. c = 0x2F) (rev path));
            upto_slash = rev (dropWhile (\<lambda>c. c \<noteq> 0x2F) (rev body))
        in if length upto_slash \<le> 1 then (if hasRoot then js ''/'' else js ''.'')
           else if hasRoot \<and> length upto_slash = 2 then js ''//''
           else take (length upto_slash - 1) path)"

section \<open>The url module: fileURLToPath and pathToFileURL\<close>

definition hex_value :: "nat \<Rightarrow> nat option" where
  "hex_value c =
     (if 0x30 \<le> c \<and> c \<le> 0x39 then Some (c - 0x30)
      else if 0x41 \<le> c \<and> c \<le> 0x46 then Some (c - 0x37)
      else if 0x61 \<le> c \<and> c \<le> 0x66 then Some (c - 0x57)
      else None)"

text \<open>The byte of an escape \<open>%XY\<close> at the front of a string, and the rest of the string.\<close>

fun escape_byte :: "jsstring \<Rightarrow> (nat \<times> jsstring) option" where
  "escape_byte (p # x # y # rest) =
     (if p = 0x25 then
        (case (hex_value x, hex_value y) of
           (Some a, Some b) \<Rightarrow> Some (16 * a + b, rest)
         | _ \<Rightarrow> None)
      else None)"
| "escape_byte _ = None"

text \<open>\<open>n\<close> escapes of continuation bytes \<open>10xxxxxx\<close>.\<close>

fun continuation_bytes :: "nat \<Rightarrow> jsstring \<Rightarrow> (nat list \<times> jsstring) option" where
  "continuation_bytes 0 s = Some ([], s)"
| "continuation_bytes (Suc n) s =
     (case escape_byte s of
        None \<Rightarrow> None
      | Some (b, rest) \<Rightarrow>
          if b div 64 \<noteq> 2 then None
          else (case continuation_bytes n rest of
                  None \<Rightarrow> None
                | Some (bs, rest') \<Rightarrow> Some (b # bs, rest')))"

definition leading_ones :: "nat \<Rightarrow> nat" where
  "leading_ones b =
     (if b < 0x80 then 0 else if b < 0xC0 then 1 else if b < 0xE0 then 2 else if b < 0xF0 then 3
      else if b < 0xF8 then 4 else 5)"

definition utf8_code_point :: "nat \<Rightarrow> nat list \<Rightarrow> nat" where
  "utf8_code_point b bs = foldl (\<lambda>v c. v * 64 + c mod 64) (b mod 2 ^ (7 - leading_ones b)) bs"

definition valid_code_point :: "nat \<Rightarrow> nat \<Rightarrow> bool" where
  "valid_code_point n v \<longleftrightarrow>
     (n = 2 \<longrightarrow> 0x80 \<le> v) \<and> (n = 3 \<longrightarrow> 0x800 \<le> v) \<and> (n = 4 \<longrightarrow> 0x10000 \<le> v)
     \<and> \<not> (0xD800 \<le> v \<and> v \<le> 0xDFFF) \<and> v \<le> 0x10FFFF"

definition utf16_encoding :: "nat \<Rightarrow> jsstring" where
  "utf16_encoding v =
     (if v < 0x10000 then [v]
      else [0xD800 + (v - 0x10000) div 0x400, 0xDC00 + (v - 0x10000) mod 0x400])"

lemma escape_byte_shorter: "escape_byte s = Some (b, rest) \<Longrightarrow> length rest < length s"
  by (induction s rule: escape_byte.induct) (auto split: if_splits option.splits)

lemma continuation_bytes_shorter:
  "continuation_bytes n s = Some (bs, rest) \<Longrightarrow> length rest \<le> length s"
proof (induction n arbitrary: s bs rest)
  case 0
  then show ?case by simp
next
  case (Suc n)
  then show ?case
    by (fastforce split: option.splits if_splits dest: escape_byte_shorter)
qed

function decodeURIComponent :: "jsstring \<Rightarrow> js_error + jsstring" where
  "decodeURIComponent [] = Inr []"
| "decodeURIComponent (c # cs) =
     (if c \<noteq> 0x25 then
        (case decodeURIComponent cs of Inl e \<Rightarrow> Inl e | Inr r \<Rightarrow> Inr (c # r))
      else
        (case escape_byte (c # cs) of
           None \<Rightarrow> Inl URIError
         | Some (b, rest) \<Rightarrow>
             if b < 0x80 then
               (case decodeURIComponent rest of Inl e \<Rightarrow> Inl e | Inr r \<Rightarrow> Inr (b # r))
             else if leading_ones b = 1 \<or> leading_ones b > 4 then Inl URIError
             else
               (case continuation_bytes (leading_ones b - 1) rest of
                  None \<Rightarrow> Inl URIError
                | Some (bs, rest') \<Rightarrow>
                    if \<not> valid_code_point (leading_ones b) (utf8_code_point b bs) then Inl URIError
                    else
                      (case decodeURIComponent rest' of
                         Inl e \<Rightarrow> Inl e
                       | Inr r \<Rightarrow> Inr (utf16_encoding (utf8_code_point b bs) @ r)))))"
  by pat_completeness auto
termination
proof (relation "measure length")
  show "wf (measure length)" by simp
next
  fix c cs
  show "(cs, c # cs) \<in> measure length" by simp
next
  fix c cs x2 x y
  assume "escape_byte (c # cs) = Some x2" "(x, y) = x2"
  then show "(y, c # cs) \<in> measure length"
    using escape_byte_shorter [of "c # cs" x y] by simp
next
  fix c cs x2 x y x2a xa ya
  assume "escape_byte (c # cs) = Some x2" "(x, y) = x2"
    "continuation_bytes (leading_ones x - 1) y = Some x2a" "(xa, ya) = x2a"
  then show "(ya, c # cs) \<in> measure length"
    using escape_byte_shorter [of "c # cs" x y]
      continuation_bytes_shorter [of "leading_ones x - 1" y xa ya] by simp
qed

text \<open>
  \<open>fileURLToPath\<close> of a URL object on POSIX: the scheme must be \<open>file:\<close>, the host
  empty, no \<open>%2F\<close> in the path; the path is \<open>decodeURIComponent(pathname)\<close>.
\<close>

fun has_encoded_slash :: "jsstring \<Rightarrow> bool" where
  "has_encoded_slash (p # x # y # rest) =
     ((p = 0x25 \<and> x = 0x32 \<and> (y = 0x46 \<or> y = 0x66)) \<or> has_encoded_slash (x # y # rest))"
| "has_encoded_slash _ = False"

definition fileURLToPath :: "URL \<Rightarrow> js_error + jsstring" where
  "fileURLToPath url =
     (if protocol url \<noteq> js ''file:'' then Inl (NodeTypeError (js ''ERR_INVALID_URL_SCHEME'') (js ''The URL must be of scheme file''))
      else if hostname url \<noteq> [] then
        Inl (NodeTypeError (js ''ERR_INVALID_FILE_URL_HOST'')
               (js ''File URL host must be \"localhost\" or empty on linux''))
      else if has_encoded_slash (pathname url) then
        Inl (NodeTypeError (js ''ERR_INVALID_FILE_URL_PATH'')
               (js ''File URL path must not include encoded / characters''))
      else decodeURIComponent (pathname url))"

text \<open>
  \<open>pathToFileURL\<close>: the resolved path, with its trailing slash put back and
  percent sign, backslash, newline, carriage return and tab escaped, becomes the
  pathname of \<open>new URL('file://')\<close>.
\<close>

definition file_url :: URL where
  "file_url = \<lparr> protocol = js ''file:'', userinfo = [], host = Some [], port = [],
       opaque_path = False, pathname = js ''/'', query = None, fragment = None \<rparr>"

definition pathToFileURL :: "jsstring \<Rightarrow> jsstring \<Rightarrow> URL" where
  "pathToFileURL cwd filepath =
     (let resolved = path_resolve cwd filepath;
          resolved = (if filepath \<noteq> [] \<and> last filepath = 0x2F \<and> last resolved \<noteq> 0x2F
                      then resolved @ js ''/'' else resolved);
          resolved = concat (map (\<lambda>c. if c = 0x25 then js ''%25'' else [c]) resolved);
          resolved = concat (map (\<lambda>c. if c = 0x5C then js ''%5C'' else [c]) resolved);
          resolved = concat (map (\<lambda>c. if c = 0x0A then js ''%0A'' else [c]) resolved);
          resolved = concat (map (\<lambda>c. if c = 0x0D then js ''%0D'' else [c]) resolved);
          resolved = concat (map (\<lambda>c. if c = 0x09 then js ''%09'' else [c]) resolved)
      in set_pathname file_url resolved)"

section \<open>server.ts: the session\<close>

text \<open>
  What the code takes from outside: the constructor \<open>new URL(x)\<close> (the URL parser; it
  throws a TypeError for what is not an absolute URL), \<open>process.cwd()\<close>,
  \<open>CACHE_DIR\<close>, the next \<open>uuid.v1()\<close>, and how each awaited operation on the file
  system, the network and the child processes settles (\<open>None\<close>: it succeeds).
  \<open>filterDependencies\<close> and \<open>install\<close> are functions of the repository whose
  source is not at hand; only the way they settle is used: \<open>install\<close> by the
  \<open>success\<close> or \<open>error\<close> event of the process. \<open>greater_than_one\<close> is
  \<open>x > 1\<close> for a string, an array or an object \<open>x\<close>, which JavaScript first
  converts to a number; the conversion of an object may throw. \<open>schedule\<close> is the order in which the installers of a list of
  directories were spawned, a permutation of that list.

  A download (lines 270 to 280) ends in one of three ways: the file is written
  (\<open>Finished\<close> with the number of bytes), the write stream emits an error, or the
  request emits an error.
\<close>

datatype download = Finished nat | WriteFailed js_error | RequestFailed js_error

record env =
  new_URL :: "json \<Rightarrow> js_error + URL"
  cwd :: jsstring
  CACHE_DIR :: jsstring
  uuid_v1 :: jsstring
  greater_than_one :: "json \<Rightarrow> js_error + bool"
  mkdirp :: "jsstring \<Rightarrow> js_error option"
  fs_mkdir :: "jsstring \<Rightarrow> js_error option"
  request :: "jsstring \<Rightarrow> jsstring \<Rightarrow> download"
  decompress :: "jsstring \<Rightarrow> jsstring \<Rightarrow> js_error option"
  glob :: "jsstring \<Rightarrow> js_error + jsstring list"
  filterDependencies :: "jsstring \<Rightarrow> js_error option"
  install :: "jsstring \<Rightarrow> js_error option"
  schedule :: "jsstring list \<Rightarrow> jsstring list"
  generateTraceURL :: "nat \<Rightarrow> jsstring option"
  dispose :: "js_error option"
  rmfr :: "jsstring option \<Rightarrow> js_error option"

text \<open>
  A span, as the list of what the handler did with it; the spans of a connection live
  in a store and are named by their index there.
\<close>

record span =
  operation :: jsstring
  tags :: "(jsstring \<times> json) list"
  logged :: "js_error list"
  finished :: bool

text \<open>The three cleanup closures of the source (lines 187, 255 and 317).\<close>

datatype cleanup =
    DisposeLanguageServer
  | DeleteTempDir
  | KillYarn jsstring

text \<open>The variables of one connection (lines 176 to 207).\<close>

record session =
  zipRootUri :: "URL option"
  fileRootUri :: "URL option"
  tempDir :: "jsstring option"
  extractPath :: "jsstring option"
  globalFolderRoot :: "jsstring option"
  cacheFolderRoot :: "jsstring option"
  connectionCleanupFns :: "cleanup list"
  requestSpans :: "json \<rightharpoonup> nat"
  spans :: "span list"

text \<open>
  What a handler does to the outside, in order. \<open>Concurrently\<close> holds the events of
  callbacks that run together, one list for each, with no order between the lists.
  \<open>UncaughtException\<close> is an exception that nothing catches: the process prints it
  and exits.
\<close>

datatype logarg = Text jsstring | Value json | Thrown js_error | Paths "jsstring list"

datatype event =
    SpawnWorker
  | Mkdirp jsstring
  | Mkdir jsstring
  | Fetch jsstring jsstring
  | Decompress jsstring jsstring
  | Glob jsstring
  | FilterDependencies jsstring
  | YarnInstall jsstring jsstring jsstring
  | LoggerLog "logarg list"
  | LoggerError "logarg list"
  | ToWorker json
  | ToClient json
  | DisposeWorker
  | Rmfr "jsstring option"
  | KillProcess jsstring
  | Concurrently "event list list"
  | UncaughtException js_error

text \<open>How a piece of the handler ends: it returns, it throws, or the process exits.\<close>

datatype 'a completion = Returns 'a | Throws js_error | Exits js_error

subsection \<open>The two rewrite rules (lines 194 to 204)\<close>

definition TypeError_undefined :: "jsstring \<Rightarrow> js_error" where
  "TypeError_undefined p = TypeError (js ''Cannot read property '' @ [0x27] @ p @ [0x27] @ js '' of undefined'')"

definition transformZipToFileUri :: "env \<Rightarrow> session \<Rightarrow> URL \<Rightarrow> js_error + URL" where
  "transformZipToFileUri e st zipUri =
     (case fileRootUri st of
        None \<Rightarrow> Inl (TypeError_undefined (js ''href''))
      | Some root \<Rightarrow>
          (case new_URL e (JStr (href root)) of
             Inl err \<Rightarrow> Inl err
           | Inr fileUri \<Rightarrow>
               Inr (set_pathname fileUri (path_join [pathname root, drop 1 (hash zipUri)]))))"

definition replace_backslashes :: "jsstring \<Rightarrow> jsstring" where
  "replace_backslashes s = map (\<lambda>c. if c = 0x5C then 0x2F else c) s"

definition transformFileToZipUri :: "env \<Rightarrow> session \<Rightarrow> URL \<Rightarrow> js_error + URL" where
  "transformFileToZipUri e st fileUri =
     (case fileURLToPath fileUri of
        Inl err \<Rightarrow> Inl err
      | Inr filePath \<Rightarrow>
          (case zipRootUri st of
             None \<Rightarrow> Inl (TypeError_undefined (js ''href''))
           | Some root \<Rightarrow>
               (case new_URL e (JStr (href root)) of
                  Inl err \<Rightarrow> Inl err
                | Inr zipUri \<Rightarrow>
                    (case extractPath st of
                       None \<Rightarrow> Inl (NodeTypeError (js ''ERR_INVALID_ARG_TYPE'')
                                     (js ''The \"from\" argument must be of type string. Received type undefined''))
                     | Some ep \<Rightarrow>
                         Inr (set_hash zipUri (replace_backslashes (path_relative (cwd e) ep filePath)))))))"

subsection \<open>rewriteUris (lines 90 to 100)\<close>

text \<open>
  The function changes its argument in place and may throw half way; it is modelled as
  returning what was thrown, if anything, and the argument as the call leaves it.
  \<open>'uri' in obj\<close> holds for an object with that key (an array parsed from JSON has
  only its indices); \<open>Object.keys\<close> lists keys and indices in order.
\<close>

fun jsize :: "json \<Rightarrow> nat" where
  "jsize (JArr xs) = Suc (sum_list (map jsize xs))"
| "jsize (JObj ps) = Suc (sum_list (map (\<lambda>p. jsize (snd p)) ps))"
| "jsize _ = 1"

lemma jsize_pos: "0 < jsize v"
  by (cases v) simp_all

lemma jsize_update_uri:
  "map_of ps k = Some v \<Longrightarrow>
   sum_list (map (\<lambda>p. jsize (snd p)) (AList.update k (JStr s) ps)) \<le> sum_list (map (\<lambda>p. jsize (snd p)) ps)"
proof (induction ps)
  case Nil
  then show ?case by simp
next
  case (Cons p ps)
  then show ?case
    using jsize_pos [of "snd p"] by (cases p) (auto split: if_splits)
qed

function rewriteUris :: "(json \<Rightarrow> js_error + URL) \<Rightarrow> (URL \<Rightarrow> js_error + URL) \<Rightarrow> json \<Rightarrow> js_error option \<times> json"
  and rewriteUris_values :: "(json \<Rightarrow> js_error + URL) \<Rightarrow> (URL \<Rightarrow> js_error + URL) \<Rightarrow> (jsstring \<times> json) list \<Rightarrow> js_error option \<times> (jsstring \<times> json) list"
  and rewriteUris_elements :: "(json \<Rightarrow> js_error + URL) \<Rightarrow> (URL \<Rightarrow> js_error + URL) \<Rightarrow> json list \<Rightarrow> js_error option \<times> json list"
where
  "rewriteUris new transform (JObj ps) =
     (case map_of ps (js ''uri'') of
        None \<Rightarrow> (case rewriteUris_values new transform ps of (r, ps') \<Rightarrow> (r, JObj ps'))
      | Some uri \<Rightarrow>
          (case new uri of
             Inl err \<Rightarrow> (Some err, JObj ps)
           | Inr url \<Rightarrow>
               (case transform url of
                  Inl err \<Rightarrow> (Some err, JObj ps)
                | Inr url' \<Rightarrow>
                    (case rewriteUris_values new transform (AList.update (js ''uri'') (JStr (href url')) ps) of
                       (r, ps') \<Rightarrow> (r, JObj ps')))))"
| "rewriteUris new transform (JArr xs) =
     (case rewriteUris_elements new transform xs of (r, xs') \<Rightarrow> (r, JArr xs'))"
| "rewriteUris new transform JNull = (None, JNull)"
| "rewriteUris new transform (JBool b) = (None, JBool b)"
| "rewriteUris new transform (JNum n) = (None, JNum n)"
| "rewriteUris new transform (JStr s) = (None, JStr s)"
| "rewriteUris_values new transform [] = (None, [])"
| "rewriteUris_values new transform ((k, v) # ps) =
     (case rewriteUris new transform v of
        (Some err, v') \<Rightarrow> (Some err, (k, v') # ps)
      | (None, v') \<Rightarrow>
          (case rewriteUris_values new transform ps of (r, ps') \<Rightarrow> (r, (k, v') # ps')))"
| "rewriteUris_elements new transform [] = (None, [])"
| "rewriteUris_elements new transform (x # xs) =
     (case rewriteUris new transform x of
        (Some err, x') \<Rightarrow> (Some err, x' # xs)
      | (None, x') \<Rightarrow>
          (case rewriteUris_elements new transform xs of (r, xs') \<Rightarrow> (r, x' # xs')))"
  by pat_completeness auto

termination
proof (relation "measure (\<lambda>x. case x of
          Inl (new, t, v) \<Rightarrow> 2 * jsize v
        | Inr (Inl (new, t, ps)) \<Rightarrow> 2 * sum_list (map (\<lambda>p. jsize (snd p)) ps) + 1
        | Inr (Inr (new, t, xs)) \<Rightarrow> 2 * sum_list (map jsize xs) + 1)", goal_cases)
  case 1
  then show ?case by simp
next
  case (3 new transform ps x2 x2a b)
  then show ?case
    using jsize_update_uri [of ps "js ''uri''" x2 "href b"] by simp
qed (simp_all add: jsize_pos)

subsection \<open>Messages\<close>

text \<open>
  Reading a property: \<open>None\<close> is \<open>undefined\<close>. The type guards are those of
  vscode-jsonrpc.
\<close>

fun property :: "json \<Rightarrow> jsstring \<Rightarrow> json option" where
  "property (JObj ps) k = map_of ps k"
| "property _ k = None"

fun truthy :: "json \<Rightarrow> bool" where
  "truthy JNull = False"
| "truthy (JBool b) = b"
| "truthy (JNum n) = (n \<noteq> 0)"
| "truthy (JStr s) = (s \<noteq> [])"
| "truthy (JArr xs) = True"
| "truthy (JObj ps) = True"

fun is_str :: "json option \<Rightarrow> bool" where
  "is_str (Some (JStr s)) = True"
| "is_str _ = False"

fun is_num :: "json option \<Rightarrow> bool" where
  "is_num (Some (JNum n)) = True"
| "is_num _ = False"

definition isRequestMessage :: "json \<Rightarrow> bool" where
  "isRequestMessage m \<longleftrightarrow>
     truthy m \<and> is_str (property m (js ''method'')) \<and> (is_str (property m (js ''id'')) \<or> is_num (property m (js ''id'')))"

definition isNotificationMessage :: "json \<Rightarrow> bool" where
  "isNotificationMessage m \<longleftrightarrow>
     truthy m \<and> is_str (property m (js ''method'')) \<and> property m (js ''id'') = None"

definition isResponseMessage :: "json \<Rightarrow> bool" where
  "isResponseMessage m \<longleftrightarrow>
     truthy m
     \<and> (property m (js ''result'') \<noteq> None \<or> (case property m (js ''error'') of None \<Rightarrow> False | Some v \<Rightarrow> truthy v))
     \<and> (is_str (property m (js ''id'')) \<or> is_num (property m (js ''id'')) \<or> property m (js ''id'') = Some JNull)"

definition message_method :: "json \<Rightarrow> jsstring" where
  "message_method m = (case property m (js ''method'') of Some (JStr s) \<Rightarrow> s | _ \<Rightarrow> [])"

definition message_id :: "json \<Rightarrow> json" where
  "message_id m = (case property m (js ''id'') of Some i \<Rightarrow> i | None \<Rightarrow> JNull)"

subsection \<open>Spans\<close>

definition startSpan :: "jsstring \<Rightarrow> session \<Rightarrow> session \<times> nat" where
  "startSpan name st =
     (st\<lparr> spans := spans st @ [\<lparr> operation = name, tags = [], logged = [], finished = False \<rparr>] \<rparr>,
      length (spans st))"

definition update_span :: "nat \<Rightarrow> (span \<Rightarrow> span) \<Rightarrow> session \<Rightarrow> session" where
  "update_span r f st = st\<lparr> spans := (spans st)[r := f (spans st ! r)] \<rparr>"

definition setTag :: "nat \<Rightarrow> jsstring \<Rightarrow> json \<Rightarrow> session \<Rightarrow> session" where
  "setTag r k v st = update_span r (\<lambda>s. s\<lparr> tags := tags s @ [(k, v)] \<rparr>) st"

definition span_log :: "nat \<Rightarrow> js_error \<Rightarrow> session \<Rightarrow> session" where
  "span_log r err st = update_span r (\<lambda>s. s\<lparr> logged := logged s @ [err] \<rparr>) st"

definition finish :: "nat \<Rightarrow> session \<Rightarrow> session" where
  "finish r st = update_span r (\<lambda>s. s\<lparr> finished := True \<rparr>) st"

text \<open>Lines 210 to 228: the span of a message, tracked by its id when it is a request.\<close>

definition span_of_message :: "json \<Rightarrow> session \<Rightarrow> session \<times> nat" where
  "span_of_message message st =
     (let (st, span) = startSpan [] st;
          (st, span) =
            (if isRequestMessage message \<or> isNotificationMessage message then
               let (st, span) = startSpan (js ''Handle '' @ message_method message) st;
                   st = setTag span (js ''method'') (JStr (message_method message)) st
               in if isRequestMessage message then
                    let st = setTag span (js ''id'') (message_id message) st
                    in (st\<lparr> requestSpans := (requestSpans st)(message_id message \<mapsto> span) \<rparr>, span)
                  else (st, span)
             else (st, span));
          st = (case zipRootUri st of
                  None \<Rightarrow> st
                | Some z \<Rightarrow> setTag span (js ''rootUri'') (JStr (href z)) st)
      in (st, span))"

subsection \<open>The interception of initialize (lines 231 to 335)\<close>

definition endsWith :: "jsstring \<Rightarrow> jsstring \<Rightarrow> bool" where
  "endsWith s t \<longleftrightarrow> length t \<le> length s \<and> drop (length s - length t) s = t"

text \<open>
  \<open>params.workspaceFolders.length > 1\<close> for a truthy \<open>workspaceFolders\<close>. The
  declared type is \<open>WorkspaceFolder[] | null\<close>. Of the values outside it, a string has
  its length, a number and a boolean have none (\<open>undefined > 1\<close> is false), and an
  object has its \<open>length\<close> property, which is compared as JavaScript compares it.
\<close>

fun length_gt_1 :: "env \<Rightarrow> json \<Rightarrow> js_error + bool" where
  "length_gt_1 e (JArr xs) = Inr (length xs > 1)"
| "length_gt_1 e (JStr s) = Inr (length s > 1)"
| "length_gt_1 e (JObj ps) =
     (case map_of ps (js ''length'') of
        None \<Rightarrow> Inr False
      | Some JNull \<Rightarrow> Inr False
      | Some (JBool b) \<Rightarrow> Inr False
      | Some (JNum n) \<Rightarrow> Inr (n > 1)
      | Some x \<Rightarrow> greater_than_one e x)"
| "length_gt_1 e _ = Inr False"

definition truthy_prop :: "json option \<Rightarrow> bool" where
  "truthy_prop v = (case v of None \<Rightarrow> False | Some x \<Rightarrow> truthy x)"

text \<open>Lines 232 to 248: the checks; \<open>zipRootUri\<close> is assigned before the last two.\<close>

definition more_than_one_folder :: js_error where
  "more_than_one_folder =
     Error (js ''More than one workspace folder given. The TypeScript server only supports a single workspace folder.'')"

definition check_root :: "env \<Rightarrow> nat \<Rightarrow> json \<Rightarrow> session \<Rightarrow> js_error option \<times> session" where
  "check_root e span params st =
     (case new_URL e (the (property params (js ''rootUri''))) of
        Inl err \<Rightarrow> (Some err, st)
      | Inr z \<Rightarrow>
          let st = st\<lparr> zipRootUri := Some z \<rparr>;
              st = setTag span (js ''rootUri'') (JStr (href z)) st
          in if \<not> endsWith (pathname z) (js ''.zip'') then
               (Some (Error (js ''rootUri must end with .zip'')), st)
             else if protocol z \<noteq> js ''http:'' \<and> protocol z \<noteq> js ''https:'' then
               (Some (Error (js ''Protocol must be http or https'')), st)
             else (None, st))"

definition initialize_checks :: "env \<Rightarrow> nat \<Rightarrow> json \<Rightarrow> session \<Rightarrow> js_error option \<times> session" where
  "initialize_checks e span message st =
     (case property message (js ''params'') of
        None \<Rightarrow> (Some (TypeError_undefined (js ''rootUri'')), st)
      | Some JNull \<Rightarrow> (Some (TypeError (js ''Cannot read property 'rootUri' of null'')), st)
      | Some params \<Rightarrow>
          if \<not> truthy_prop (property params (js ''rootUri'')) then
            (Some (Error (js ''No rootUri given as initialize parameter'')), st)
          else if truthy_prop (property params (js ''workspaceFolders'')) then
            (case length_gt_1 e (the (property params (js ''workspaceFolders''))) of
               Inl err \<Rightarrow> (Some err, st)
             | Inr True \<Rightarrow> (Some more_than_one_folder, st)
             | Inr False \<Rightarrow> check_root e span params st)
          else check_root e span params st)"

text \<open>\<open>Promise.all\<close> of operations that were all started: the first failure, if any.\<close>

fun first_error :: "js_error option list \<Rightarrow> js_error option" where
  "first_error [] = None"
| "first_error (None # rs) = first_error rs"
| "first_error (Some err # rs) = Some err"

text \<open>The paths of lines 250 to 266.\<close>

definition temp_dir :: "env \<Rightarrow> URL \<Rightarrow> jsstring" where
  "temp_dir e z =
     path_join [CACHE_DIR e,
       map (\<lambda>c. if c = 0x2F then 0x5F else c) (hostname z @ pathname z) @ js ''_'' @ uuid_v1 e]"

definition extract_path :: "env \<Rightarrow> URL \<Rightarrow> jsstring" where
  "extract_path e z = path_join [temp_dir e z, js ''repo'']"

definition archive_path :: "env \<Rightarrow> URL \<Rightarrow> jsstring" where
  "archive_path e z = path_join [temp_dir e z, js ''archive.zip'']"

text \<open>
  Lines 250 to 293: the temporary directory, the download, the extraction and the
  search for manifests. The result is the list of manifests, or what was thrown.

  The download (lines 270 to 280) pipes the request into the file. The request is a
  stream of the old kind, whose \<open>pipe\<close> adds an error listener that throws the error
  again when it finds no other listener. The promise listens on the request with
  \<open>once\<close>, added before the pipe: when the request emits an error, that listener
  rejects the promise and removes itself, the listener of the pipe then finds none and
  throws, and nothing catches that. On the write stream the listener of the pipe comes
  first and finds the listener of the promise, which then rejects.
\<close>

definition materialize :: "env \<Rightarrow> URL \<Rightarrow> session \<Rightarrow> (jsstring list) completion \<times> session \<times> event list" where
  "materialize e z st =
     (let tmp = temp_dir e z;
          st = st\<lparr> tempDir := Some tmp \<rparr>;
          evs = [Mkdirp tmp]
      in case mkdirp e tmp of
           Some err \<Rightarrow> (Throws err, st, evs)
         | None \<Rightarrow>
             let st = st\<lparr> connectionCleanupFns := connectionCleanupFns st @ [DeleteTempDir] \<rparr>;
                 ep = path_join [tmp, js ''repo''];
                 cache = path_join [tmp, js ''cache''];
                 global = path_join [tmp, js ''global''];
                 st = st\<lparr> extractPath := Some ep, cacheFolderRoot := Some cache,
                          globalFolderRoot := Some global \<rparr>;
                 evs = evs @ [Concurrently [[Mkdir ep], [Mkdir cache], [Mkdir global]]]
             in case first_error [fs_mkdir e ep, fs_mkdir e cache, fs_mkdir e global] of
                  Some err \<Rightarrow> (Throws err, st, evs)
                | None \<Rightarrow>
                    let archivePath = path_join [tmp, js ''archive.zip''];
                        evs = evs @ [LoggerLog [Text (js ''Fetching zip from''), Text (href z)],
                                     Fetch (href z) archivePath]
                    in case request e (href z) archivePath of
                         RequestFailed err \<Rightarrow> (Exits err, st, evs)
                       | WriteFailed err \<Rightarrow> (Throws err, st, evs)
                       | Finished bytes \<Rightarrow>
                           let evs = evs @ [Decompress archivePath ep]
                           in case decompress e archivePath ep of
                                Some err \<Rightarrow> (Throws err, st, evs)
                              | None \<Rightarrow>
                                  let evs = evs @ [Glob ep]
                                  in case glob e ep of
                                       Inl err \<Rightarrow> (Throws err, st, evs)
                                     | Inr packageJsonPaths \<Rightarrow>
                                         (Returns packageJsonPaths, st,
                                          evs @ [LoggerLog [Text (js ''package.jsons found:''),
                                                            Paths packageJsonPaths]]))"

text \<open>
  Lines 298 to 326: the callback for one manifest, with its own catch. The result is
  the events of this callback and, when it came to spawn the installer, the directory
  of that installer.
\<close>

definition install_failed :: "jsstring \<Rightarrow> js_error \<Rightarrow> event" where
  "install_failed relPackageJsonPath err =
     LoggerError [Text (js ''Installation for '' @ relPackageJsonPath @ js '' failed''), Thrown err]"

definition install_package :: "env \<Rightarrow> session \<Rightarrow> jsstring \<Rightarrow> event list \<times> jsstring option" where
  "install_package e st relPackageJsonPath =
     (let ep = (case extractPath st of Some p \<Rightarrow> p | None \<Rightarrow> []);
          absPackageJsonPath = path_join [ep, relPackageJsonPath];
          evs = [FilterDependencies absPackageJsonPath]
      in case filterDependencies e absPackageJsonPath of
           Some err \<Rightarrow> (evs @ [install_failed relPackageJsonPath err], None)
         | None \<Rightarrow>
             let relPackageJsonDirName = path_dirname relPackageJsonPath;
                 globalFolder = path_join [case globalFolderRoot st of Some p \<Rightarrow> p | None \<Rightarrow> [], relPackageJsonDirName];
                 cacheFolder = path_join [case cacheFolderRoot st of Some p \<Rightarrow> p | None \<Rightarrow> [], relPackageJsonDirName];
                 dir = path_join [ep, relPackageJsonDirName];
                 evs = evs @ [Concurrently [[Mkdirp (path_join [globalFolder])], [Mkdirp (path_join [cacheFolder])]]]
             in case first_error [mkdirp e (path_join [globalFolder]), mkdirp e (path_join [cacheFolder])] of
                  Some err \<Rightarrow> (evs @ [install_failed relPackageJsonPath err], None)
                | None \<Rightarrow>
                    let evs = evs @ [YarnInstall dir globalFolder cacheFolder]
                    in case install e dir of
                         Some err \<Rightarrow> (evs @ [install_failed relPackageJsonPath err], Some dir)
                       | None \<Rightarrow> (evs, Some dir))"

text \<open>
  Lines 296 to 328: the callbacks of all manifests are started together and
  \<open>Promise.all\<close> waits for all of them; none rejects. Each installer that was
  spawned put its kill action at the front of the cleanup array (line 317), so the
  array starts with the kill actions, the last spawned first.
\<close>

fun spawned :: "(event list \<times> jsstring option) list \<Rightarrow> jsstring list" where
  "spawned [] = []"
| "spawned ((evs, None) # rs) = spawned rs"
| "spawned ((evs, Some dir) # rs) = dir # spawned rs"

definition install_dependencies :: "env \<Rightarrow> jsstring list \<Rightarrow> session \<Rightarrow> session \<times> event list" where
  "install_dependencies e packageJsonPaths st =
     (let rs = map (install_package e st) packageJsonPaths
      in (st\<lparr> connectionCleanupFns :=
                map KillYarn (rev (schedule e (spawned rs))) @ connectionCleanupFns st \<rparr>,
          [Concurrently (map fst rs)]))"

text \<open>Lines 331 to 334: the root of the message becomes the file URL of the checkout.\<close>

definition set_prop :: "jsstring \<Rightarrow> json \<Rightarrow> json \<Rightarrow> json" where
  "set_prop k v obj = (case obj of JObj ps \<Rightarrow> JObj (AList.update k v ps) | _ \<Rightarrow> obj)"

definition rewrite_root :: "env \<Rightarrow> json \<Rightarrow> session \<Rightarrow> session \<times> json" where
  "rewrite_root e message st =
     (let ep = (case extractPath st of Some p \<Rightarrow> p | None \<Rightarrow> []);
          root = pathToFileURL (cwd e) ep;
          st = st\<lparr> fileRootUri := Some root \<rparr>;
          params = (case property message (js ''params'') of Some p \<Rightarrow> p | None \<Rightarrow> JNull);
          params = set_prop (js ''rootUri'') (JStr (href root)) params;
          params = set_prop (js ''rootPath'') (JStr ep) params;
          params = set_prop (js ''workspaceFolders'')
                     (JArr [JObj [(js ''name'', JStr []), (js ''uri'', JStr (href root))]]) params
      in (st, set_prop (js ''params'') params message))"

text \<open>The whole interception: the message as it leaves, or what was thrown.\<close>

definition intercept_initialize :: "env \<Rightarrow> nat \<Rightarrow> json \<Rightarrow> session \<Rightarrow> json completion \<times> session \<times> event list" where
  "intercept_initialize e span message st =
     (case initialize_checks e span message st of
        (Some err, st) \<Rightarrow> (Throws err, st, [])
      | (None, st) \<Rightarrow>
          (case zipRootUri st of
             None \<Rightarrow> (Throws (TypeError_undefined (js ''hostname'')), st, [])
           | Some z \<Rightarrow>
               (case materialize e z st of
                  (Throws err, st, evs) \<Rightarrow> (Throws err, st, evs)
                | (Exits err, st, evs) \<Rightarrow> (Exits err, st, evs)
                | (Returns packageJsonPaths, st, evs) \<Rightarrow>
                    let (st, evs') = install_dependencies e packageJsonPaths st;
                        (st, message) = rewrite_root e message st
                    in (Returns message, st, evs @ evs'))))"

subsection \<open>The handler of client messages (lines 209 to 362)\<close>

definition error_code :: "js_error \<Rightarrow> int" where
  "error_code err = (case map_of (err_props err) (js ''code'') of Some (JNum n) \<Rightarrow> n | _ \<Rightarrow> - 32001)"

definition error_response :: "json \<Rightarrow> js_error \<Rightarrow> json" where
  "error_response message err =
     JObj [(js ''jsonrpc'', JStr (js ''2.0'')),
           (js ''id'', message_id message),
           (js ''error'', JObj
              [(js ''message'', JStr (err_message err)),
               (js ''code'', JNum (error_code err)),
               (js ''data'', JObj (foldl (\<lambda>ps p. AList.update (fst p) (snd p) ps)
                                     [(js ''stack'', JStr (err_stack err))] (err_props err)))])]"

text \<open>Lines 341 to 361: the catch block.\<close>

definition catch_error :: "nat \<Rightarrow> json \<Rightarrow> js_error \<Rightarrow> session \<times> event list \<Rightarrow> session \<times> event list" where
  "catch_error span message err s =
     (let (st, evs) = s;
          st = setTag span (js ''error'') (JBool True) st;
          st = span_log span err st;
          evs = evs @ [LoggerError [Text (js ''Error handling message'' @ [0x0A]), Value message,
                                    Text [0x0A], Thrown err]]
      in if isRequestMessage message then (st, evs @ [ToClient (error_response message err)])
         else (st, evs))"

definition handle_client_message :: "env \<Rightarrow> session \<Rightarrow> json \<Rightarrow> session \<times> event list" where
  "handle_client_message e st message =
     (let (st, span) = span_of_message message st;
          (intercepted, st, evs) =
            (if isRequestMessage message \<and> message_method message = js ''initialize''
             then intercept_initialize e span message st
             else (Returns message, st, []))
      in case intercepted of
           Exits err \<Rightarrow> (st, evs @ [UncaughtException err])
         | Throws err \<Rightarrow> catch_error span message err (st, evs)
         | Returns message \<Rightarrow>
             (case rewriteUris (new_URL e) (transformZipToFileUri e st) message of
                (Some err, message) \<Rightarrow> catch_error span message err (st, evs)
              | (None, message) \<Rightarrow> (st, evs @ [ToWorker message])))"

subsection \<open>The handler of worker messages (lines 364 to 382)\<close>

text \<open>
  What the callback of \<open>forward\<close> throws is not caught in the source; the message is
  then not written to the client.
\<close>

definition finish_span_of_response :: "env \<Rightarrow> json \<Rightarrow> session \<Rightarrow> session \<times> json" where
  "finish_span_of_response e message st =
     (if isResponseMessage message \<and> property message (js ''id'') \<noteq> Some JNull then
        (case requestSpans st (message_id message) of
           None \<Rightarrow> (st, message)
         | Some span \<Rightarrow>
             let message = (case generateTraceURL e span of
                              None \<Rightarrow> message
                            | Some url \<Rightarrow> set_prop (js ''_trace'') (JStr url) message);
                 st = finish span st
             in (st\<lparr> requestSpans := (requestSpans st)(message_id message := None) \<rparr>, message))
      else (st, message))"

definition handle_worker_message :: "env \<Rightarrow> session \<Rightarrow> json \<Rightarrow> session \<times> event list \<times> js_error option" where
  "handle_worker_message e st message =
     (let (st, message) = finish_span_of_response e message st
      in case rewriteUris (new_URL e) (transformFileToZipUri e st) message of
           (Some err, message) \<Rightarrow> (st, [], Some err)
         | (None, message) \<Rightarrow> (st, [ToClient message], None))"

subsection \<open>Connection and close (lines 148 to 192)\<close>

definition on_connection :: "session \<times> event list" where
  "on_connection =
     (\<lparr> zipRootUri = None, fileRootUri = None, tempDir = None, extractPath = None,
        globalFolderRoot = None, cacheFolderRoot = None,
        connectionCleanupFns = [DisposeLanguageServer],
        requestSpans = Map.empty, spans = [] \<rparr>,
      [SpawnWorker])"

fun run_cleanup :: "env \<Rightarrow> session \<Rightarrow> cleanup \<Rightarrow> (event list) CleanupFn" where
  "run_cleanup e st DisposeLanguageServer = (\<lambda>w. (dispose e, w @ [DisposeWorker]))"
| "run_cleanup e st DeleteTempDir =
     (\<lambda>w. (rmfr e (tempDir st),
            w @ [LoggerLog (Text (js ''Deleting temp dir '')
                            # (case tempDir st of None \<Rightarrow> [] | Some d \<Rightarrow> [Text d])),
                 Rmfr (tempDir st)]))"
| "run_cleanup e st (KillYarn dir) =
     (\<lambda>w. (None, w @ [LoggerLog [Text (js ''Killing yarn process in ''), Text dir], KillProcess dir]))"

definition on_close :: "env \<Rightarrow> session \<Rightarrow> event list \<times> js_error list" where
  "on_close e st = cleanupAll (map (run_cleanup e st) (connectionCleanupFns st)) ([], [])"

section \<open>Messages, events and handshakes\<close>

subsection \<open>Messages with an address\<close>

text \<open>Whether some object of the message, at any depth, has a property \<open>uri\<close>.\<close>

fun has_uri :: "json \<Rightarrow> bool"
  and has_uri_values :: "(jsstring \<times> json) list \<Rightarrow> bool"
  and has_uri_elements :: "json list \<Rightarrow> bool"
where
  "has_uri (JObj ps) = (map_of ps (js ''uri'') \<noteq> None \<or> has_uri_values ps)"
| "has_uri (JArr xs) = has_uri_elements xs"
| "has_uri JNull = False"
| "has_uri (JBool b) = False"
| "has_uri (JNum n) = False"
| "has_uri (JStr s) = False"
| "has_uri_values [] = False"
| "has_uri_values ((k, v) # ps) = (has_uri v \<or> has_uri_values ps)"
| "has_uri_elements [] = False"
| "has_uri_elements (x # xs) = (has_uri x \<or> has_uri_elements xs)"


subsection \<open>What a handler wrote\<close>

text \<open>
  The events of a handler with those of its concurrent callbacks, and among them the
  messages written to the worker and to the client.
\<close>

fun events_of :: "event \<Rightarrow> event list" where
  "events_of (Concurrently evss) = concat (map (\<lambda>evs. concat (map events_of evs)) evss)"
| "events_of ev = [ev]"

definition all_events :: "event list \<Rightarrow> event list" where
  "all_events evs = concat (map events_of evs)"

fun on_wire :: "event \<Rightarrow> bool" where
  "on_wire (ToWorker m) = True"
| "on_wire (ToClient m) = True"
| "on_wire _ = False"

fun to_worker :: "event \<Rightarrow> bool" where
  "to_worker (ToWorker m) = True"
| "to_worker _ = False"

fun to_client :: "event \<Rightarrow> bool" where
  "to_client (ToClient m) = True"
| "to_client _ = False"

definition wire :: "event list \<Rightarrow> event list" where
  "wire evs = filter on_wire (all_events evs)"

subsection \<open>The root of a handshake\<close>

text \<open>
  The root of an initialize request is valid when \<open>params.rootUri\<close> is there and not
  empty, is an absolute URL, has a path that ends in \<open>.zip\<close> and the scheme http or
  https; \<open>valid_root e m z\<close> says so and that the URL is \<open>z\<close>. It is invalid
  otherwise.
\<close>

definition valid_root :: "env \<Rightarrow> json \<Rightarrow> URL \<Rightarrow> bool" where
  "valid_root e m z \<longleftrightarrow>
     (case property m (js ''params'') of
        None \<Rightarrow> False
      | Some params \<Rightarrow>
          (case property params (js ''rootUri'') of
             None \<Rightarrow> False
           | Some r \<Rightarrow>
               truthy r \<and> new_URL e r = Inr z \<and> endsWith (pathname z) (js ''.zip'')
               \<and> (protocol z = js ''http:'' \<or> protocol z = js ''https:'')))"

definition invalid_root :: "env \<Rightarrow> json \<Rightarrow> bool" where
  "invalid_root e m \<longleftrightarrow>
     (case property m (js ''params'') of
        None \<Rightarrow> True
      | Some params \<Rightarrow>
          (case property params (js ''rootUri'') of
             None \<Rightarrow> True
           | Some r \<Rightarrow>
               (if truthy r then
                  (case new_URL e r of
                     Inl err \<Rightarrow> True
                   | Inr z \<Rightarrow> \<not> endsWith (pathname z) (js ''.zip'')
                              \<or> (protocol z \<noteq> js ''http:'' \<and> protocol z \<noteq> js ''https:''))
                else True)))"

text \<open>The workspace folders of an initialize request, \<open>None\<close> when there are none.\<close>

definition workspace_folders :: "json \<Rightarrow> json option" where
  "workspace_folders m =
     (case property m (js ''params'') of
        None \<Rightarrow> None
      | Some params \<Rightarrow> property params (js ''workspaceFolders''))"

text \<open>The request passes the check of the workspace folders (lines 236 to 240).\<close>

definition folders_accepted :: "env \<Rightarrow> json \<Rightarrow> bool" where
  "folders_accepted e m \<longleftrightarrow>
     (case workspace_folders m of
        None \<Rightarrow> True
      | Some f \<Rightarrow> \<not> truthy f \<or> length_gt_1 e f = Inr False)"

subsection \<open>The steps of the materialization\<close>

text \<open>
  The temporary directories were made; the archive was downloaded; the file of the
  archive could not be written; the archive could not be extracted.
\<close>

definition temp_dirs_made :: "env \<Rightarrow> URL \<Rightarrow> bool" where
  "temp_dirs_made e z \<longleftrightarrow>
     mkdirp e (temp_dir e z) = None
     \<and> fs_mkdir e (path_join [temp_dir e z, js ''repo'']) = None
     \<and> fs_mkdir e (path_join [temp_dir e z, js ''cache'']) = None
     \<and> fs_mkdir e (path_join [temp_dir e z, js ''global'']) = None"

definition downloaded :: "env \<Rightarrow> URL \<Rightarrow> bool" where
  "downloaded e z \<longleftrightarrow>
     (case request e (href z) (archive_path e z) of Finished bytes \<Rightarrow> True | _ \<Rightarrow> False)"

definition write_fails :: "env \<Rightarrow> URL \<Rightarrow> js_error \<Rightarrow> bool" where
  "write_fails e z err \<longleftrightarrow> request e (href z) (archive_path e z) = WriteFailed err"

definition extraction_fails :: "env \<Rightarrow> URL \<Rightarrow> js_error \<Rightarrow> bool" where
  "extraction_fails e z err \<longleftrightarrow>
     downloaded e z \<and> decompress e (archive_path e z) (extract_path e z) = Some err"

subsection \<open>A handshake that is not refused\<close>




subsection \<open>The installation for one manifest\<close>






section \<open>An example session\<close>

text \<open>
  The environment of the examples below: \<open>example_new_URL\<close> lists what
  \<open>new URL\<close> returns for the strings the examples use, and throws for the strings
  that are no absolute URL; every operation succeeds but the installation in
  \<open>sub\<close>, two manifests are found, and the installers are spawned in the order
  of the manifests.
\<close>

definition http_url :: "jsstring \<Rightarrow> jsstring \<Rightarrow> jsstring option \<Rightarrow> URL" where
  "http_url h p f = \<lparr> protocol = js ''https:'', userinfo = [], host = Some h, port = [],
       opaque_path = False, pathname = p, query = None, fragment = f \<rparr>"

definition example_new_URL :: "json \<Rightarrow> js_error + URL" where
  "example_new_URL v =
     (case map_of
        [(JStr (js ''https://example.com/repo.zip''), http_url (js ''example.com'') (js ''/repo.zip'') None),
         (JStr (js ''https://example.com/repo.zip#src/index.ts''), http_url (js ''example.com'') (js ''/repo.zip'') (Some (js ''src/index.ts''))),
         (JStr (js ''file:///tmp/example.com_repo.zip_u1/repo''), file_url\<lparr> pathname := js ''/tmp/example.com_repo.zip_u1/repo'' \<rparr>),
         (JStr (js ''file:///tmp/example.com_repo.zip_u1/repo/src/index.ts''), file_url\<lparr> pathname := js ''/tmp/example.com_repo.zip_u1/repo/src/index.ts'' \<rparr>)] v of
        Some u \<Rightarrow> Inr u
      | None \<Rightarrow>
          Inl ((NodeTypeError (js ''ERR_INVALID_URL'')
                  (js ''Invalid URL: '' @ (case v of JStr s \<Rightarrow> s | _ \<Rightarrow> [])))
               \<lparr> err_props := [(js ''input'', v)] \<rparr>))"

definition example_env :: env where
  "example_env = \<lparr> new_URL = example_new_URL, cwd = js ''/srv'', CACHE_DIR = js ''/tmp'', uuid_v1 = js ''u1'',
      greater_than_one = (\<lambda>x. Inr (x = JStr (js ''2''))),
      mkdirp = (\<lambda>p. None), fs_mkdir = (\<lambda>p. None), request = (\<lambda>u a. Finished 1024), decompress = (\<lambda>a d. None),
      glob = (\<lambda>d. Inr [js ''package.json'', js ''sub/package.json'']),
      filterDependencies = (\<lambda>p. None),
      install = (\<lambda>d. if d = js ''/tmp/example.com_repo.zip_u1/repo/sub'' then Some (Error (js ''yarn failed'')) else None),
      schedule = (\<lambda>ds. ds), generateTraceURL = (\<lambda>s. None), dispose = None, rmfr = (\<lambda>p. None) \<rparr>"

definition initialize_message :: "json \<Rightarrow> json" where
  "initialize_message folders = JObj [(js ''jsonrpc'', JStr (js ''2.0'')), (js ''id'', JNum 0), (js ''method'', JStr (js ''initialize'')),
      (js ''params'', JObj [(js ''rootUri'', JStr (js ''https://example.com/repo.zip'')), (js ''workspaceFolders'', folders)])]"






text \<open>An initialize request with a null root.\<close>

definition rootless_initialize :: json where
  "rootless_initialize = JObj [(js ''jsonrpc'', JStr (js ''2.0'')), (js ''id'', JNum 0), (js ''method'', JStr (js ''initialize'')),
      (js ''params'', JObj [(js ''rootUri'', JNull)])]"

subsection \<open>Messages\<close>

text \<open>Two messages of a client: a request without an address and one with.\<close>

definition shutdown_message :: json where
  "shutdown_message =
     JObj [(js ''jsonrpc'', JStr (js ''2.0'')), (js ''id'', JNum 1), (js ''method'', JStr (js ''shutdown''))]"



text \<open>The answer of the worker to the request with the id 1, and a notification.\<close>

definition shutdown_response :: json where
  "shutdown_response = JObj [(js ''jsonrpc'', JStr (js ''2.0'')), (js ''id'', JNum 1), (js ''result'', JNull)]"

definition exit_notification :: json where
  "exit_notification = JObj [(js ''jsonrpc'', JStr (js ''2.0'')), (js ''method'', JStr (js ''exit''))]"

definition session_after_shutdown :: session where
  "session_after_shutdown = fst (handle_client_message example_env (fst on_connection) shutdown_message)"

text \<open>The example environment with an archive that cannot be extracted.\<close>

definition extraction_fails_env :: env where
  "extraction_fails_env = example_env\<lparr> decompress := (\<lambda>a d. Some (Error (js ''End of central directory record signature not found''))) \<rparr>"

text \<open>The example environment with a request that emits an error.\<close>

definition request_fails_env :: env where
  "request_fails_env = example_env\<lparr> request := (\<lambda>u a. RequestFailed (Error (js ''ECONNRESET''))) \<rparr>"


section \<open>Properties\<close>

lemma js_Nil [simp]: "js [] = []"
  by (simp add: js_def)

lemma js_Cons [simp]: "js (c # cs) = of_char c # js cs"
  by (simp add: js_def)

subsection \<open>convertHover\<close>

lemma dropWhile_all_iff: "(\<forall>x \<in> set (dropWhile P xs). P x) \<longleftrightarrow> dropWhile P xs = []"
proof (cases "dropWhile P xs")
  case Nil
  show ?thesis unfolding Nil by simp
next
  case (Cons y ys)
  then have "\<not> P y"
    using hd_dropWhile [of P xs] by simp
  then show ?thesis using Cons by auto
qed

lemma trim_empty_iff: "trim s = [] \<longleftrightarrow> whitespace_only s"
proof -
  have "trim s = [] \<longleftrightarrow> (\<forall>x \<in> set (dropWhile is_whitespace s). is_whitespace x)"
    by (simp add: trim_def dropWhile_eq_Nil_conv)
  also have "\<dots> \<longleftrightarrow> dropWhile is_whitespace s = []"
    by (rule dropWhile_all_iff)
  also have "\<dots> \<longleftrightarrow> whitespace_only s"
    by (simp add: whitespace_only_def dropWhile_eq_Nil_conv list_all_iff)
  finally show ?thesis .
qed

lemma join_loop_separated:
  "join_loop sep R k xs =
     (if xs = [] then R else if k > 0 then R @ sep @ separated sep xs else R @ separated sep xs)"
proof (induction xs arbitrary: R k)
  case Nil
  then show ?case by simp
next
  case (Cons x xs)
  show ?case
  proof (cases xs)
    case Nil
    then show ?thesis by simp
  next
    case (Cons y ys)
    then show ?thesis
      using Cons.IH [of "(if k > 0 then R @ sep else R) @ x" "Suc k"] by simp
  qed
qed

lemma join_separated: "join xs sep = separated sep xs"
  by (simp add: join_def join_loop_separated)

lemma contentString_rendered: "contentString = rendered"
proof
  fix c
  show "contentString c = rendered c"
  proof (cases c)
    case (MarkedCode l v)
    then show ?thesis by (cases v) (simp_all add: contentString_def)
  qed (simp_all add: contentString_def)
qed

lemma convertRange_accepted:
  "accepted_range r \<Longrightarrow> \<exists>r'. convertRange r = Inr r'"
  by (simp add: accepted_range_def convertRange_def new_Range_def new_Position_def)

lemma convertRange_refused:
  "\<not> accepted_range r \<Longrightarrow> \<exists>err. convertRange r = Inl err"
  by (auto simp add: accepted_range_def convertRange_def new_Range_def new_Position_def)

lemma convertHover_value:
  "convertHover (Some h) = Inr (Some res) \<Longrightarrow>
   kind (sg_contents res) = Markdown \<and> value (sg_contents res) = hover_markdown h"
proof -
  assume a: "convertHover (Some h) = Inr (Some res)"
  have "(\<lambda>str. trim str \<noteq> []) = (\<lambda>s. \<not> whitespace_only s)"
    by (simp add: trim_empty_iff)
  then show ?thesis
    using a
    by (cases "contents h")
      (auto simp add: convertHover_def hover_markdown_def entries_def join_separated
        hover_separator_def Let_def contentString_rendered split: option.splits sum.splits)
qed

text \<open>
  C10, as the source has it. \<open>convertHover\<close> returns null exactly for the null
  argument. For a hover without a range, and for one whose range has no negative line or
  character, it returns a Markdown value: the rendered entries that are not empty or
  whitespace only, joined with the separator of two newlines, three dashes and two
  newlines. For a hover whose range has a negative line or character it returns
  nothing: the constructor of the range throws.
\<close>

theorem convertHover_markdown:
  "(convertHover hover = Inr None \<longleftrightarrow> hover = None) \<and>
   (\<forall>h. hover = Some h \<and> accepted_hover h \<longrightarrow>
      (\<exists>res. convertHover hover = Inr (Some res) \<and> kind (sg_contents res) = Markdown
           \<and> value (sg_contents res) = hover_markdown h)) \<and>
   (\<forall>h. hover = Some h \<and> \<not> accepted_hover h \<longrightarrow> (\<exists>err. convertHover hover = Inl err))"
proof (cases hover)
  case None
  then show ?thesis by (simp add: convertHover_def)
next
  case (Some h)
  have null: "convertHover (Some h) \<noteq> Inr None"
    by (simp add: convertHover_def Let_def split: option.splits sum.splits)
  have ok: "\<exists>res. convertHover (Some h) = Inr (Some res) \<and> kind (sg_contents res) = Markdown
           \<and> value (sg_contents res) = hover_markdown h" if acc: "accepted_hover h"
  proof -
    have "\<exists>res. convertHover (Some h) = Inr (Some res)"
    proof (cases "hover_range h")
      case None
      then show ?thesis by (simp add: convertHover_def Let_def)
    next
      case (Some r)
      then obtain r' where "convertRange r = Inr r'"
        using acc convertRange_accepted [of r] by (auto simp add: accepted_hover_def)
      then show ?thesis using Some by (simp add: convertHover_def Let_def)
    qed
    then show ?thesis using convertHover_value [of h] by blast
  qed
  have refused: "\<exists>err. convertHover (Some h) = Inl err" if nacc: "\<not> accepted_hover h"
  proof -
    obtain r where r: "hover_range h = Some r" "\<not> accepted_range r"
      using nacc by (auto simp add: accepted_hover_def split: option.splits)
    then obtain err where "convertRange r = Inl err"
      using convertRange_refused [of r] by blast
    then show ?thesis using r(1) by (simp add: convertHover_def Let_def)
  qed
  show ?thesis using Some null ok refused by simp
qed

text \<open>
  A hover of the declared type for which the claim as worded fails: its range starts at
  line \<open>-1\<close>, and the call throws instead of returning a Markdown value.
\<close>

theorem convertHover_throws_counterexample:
  "convertHover (Some \<lparr> contents = One (MarkedText (js ''doc'')),
        hover_range = Some \<lparr> range_start = \<lparr> line = - 1, character = 0 \<rparr>,
                              range_end = \<lparr> line = 0, character = 0 \<rparr> \<rparr> \<rparr>)
   = Inl (illegalArgument (js ''line must be non-negative''))"
  by (simp add: convertHover_def convertRange_def new_Range_def new_Position_def Let_def)

theorem convertHover_markdown_witness:
  "convertHover (Some \<lparr> contents = Many [MarkedCode (js ''ts'') (js ''let x''), MarkedText (js '' ''),
        MarkedCode (js ''ts'') [], MarkupContent PlainText (js ''doc'')],
        hover_range = Some \<lparr> range_start = \<lparr> line = 2, character = 0 \<rparr>,
                              range_end = \<lparr> line = 1, character = 4 \<rparr> \<rparr> \<rparr>)
   = Inr (Some \<lparr> sg_range = Some \<lparr> sg_start = \<lparr> sg_line = 1, sg_character = 4 \<rparr>,
                                     sg_end = \<lparr> sg_line = 2, sg_character = 0 \<rparr> \<rparr>,
        sg_contents = \<lparr> kind = Markdown,
        value = js ''```ts'' @ [0x0A] @ js ''let x'' @ [0x0A] @ js ''```''
                @ [0x0A, 0x0A, 0x2D, 0x2D, 0x2D, 0x0A, 0x0A] @ js ''doc'' \<rparr> \<rparr>)"
proof -
  let ?h = "\<lparr> contents = Many [MarkedCode (js ''ts'') (js ''let x''), MarkedText (js '' ''),
        MarkedCode (js ''ts'') [], MarkupContent PlainText (js ''doc'')],
        hover_range = Some \<lparr> range_start = \<lparr> line = 2, character = 0 \<rparr>,
                              range_end = \<lparr> line = 1, character = 4 \<rparr> \<rparr> \<rparr>"
  have "accepted_hover ?h"
    by (simp add: accepted_hover_def accepted_range_def)
  then obtain r where r: "convertHover (Some ?h) = Inr (Some r)" "kind (sg_contents r) = Markdown"
    "value (sg_contents r) = hover_markdown ?h"
    using convertHover_markdown [of "Some ?h"] by blast
  have "sg_range r = Some \<lparr> sg_start = \<lparr> sg_line = 1, sg_character = 4 \<rparr>,
                            sg_end = \<lparr> sg_line = 2, sg_character = 0 \<rparr> \<rparr>"
    using r(1)
    by (auto simp add: convertHover_def convertRange_def new_Range_def new_Position_def
        isBefore_def Let_def)
  moreover have "hover_markdown ?h = js ''```ts'' @ [0x0A] @ js ''let x'' @ [0x0A] @ js ''```''
                @ [0x0A, 0x0A, 0x2D, 0x2D, 0x2D, 0x0A, 0x0A] @ js ''doc''"
    by (simp add: hover_markdown_def entries_def whitespace_only_def is_whitespace_def)
  ultimately have "r = \<lparr> sg_range = Some \<lparr> sg_start = \<lparr> sg_line = 1, sg_character = 4 \<rparr>,
                                     sg_end = \<lparr> sg_line = 2, sg_character = 0 \<rparr> \<rparr>,
        sg_contents = \<lparr> kind = Markdown,
        value = js ''```ts'' @ [0x0A] @ js ''let x'' @ [0x0A] @ js ''```''
                @ [0x0A, 0x0A, 0x2D, 0x2D, 0x2D, 0x0A, 0x0A] @ js ''doc'' \<rparr> \<rparr>"
    using r(2,3) by (cases r, cases "sg_contents r") simp
  then show ?thesis using r(1) by simp
qed

subsection \<open>The cleanup registry\<close>

lemma foldl_register:
  "foldl register fns regs = rev (unshifts regs) @ fns @ pushes regs"
proof (induction regs arbitrary: fns)
  case Nil
  then show ?case by simp
next
  case (Cons r regs)
  then show ?case by (cases r) simp_all
qed

lemma registered_order: "registered regs = rev (unshifts regs) @ pushes regs"
  by (simp add: registered_def foldl_register)

lemma cleanupAll_traced:
  "cleanupAll (map traced as) (w, console) = (w @ map fst as, console @ thrown as)"
proof (induction as arbitrary: w console)
  case Nil
  then show ?case by simp
next
  case (Cons a as)
  obtain i e where a: "a = (i, e)" by (cases a)
  show ?case
    using Cons.IH by (cases e) (simp_all add: a traced_def)
qed

text \<open>
  C3, as the source has it. After any sequence of registrations, one run of
  \<open>cleanupAll\<close> runs every registered action once, in the order of the array: the
  actions registered with \<open>unshift\<close>, the newest first, and then the actions
  registered with \<open>push\<close>, the oldest first. What an action throws goes to the
  console and the run goes on with the next action.
\<close>

theorem cleanupAll_array_order:
  "cleanupAll (map traced (registered regs)) ([], []) =
     (map fst (rev (unshifts regs) @ pushes regs), thrown (rev (unshifts regs) @ pushes regs))"
  unfolding registered_order
  using cleanupAll_traced [of "rev (unshifts regs) @ pushes regs" "[]" "[]"] by simp

text \<open>
  The source pushes the disposal of the language server (line 187) and then the
  deletion of the temporary directory (line 255): the run takes them oldest first.
\<close>

theorem cleanupAll_newest_first_counterexample:
  "fst (cleanupAll (map traced (registered [Push (1::nat, None), Push (2, None)])) ([], [])) = [1, 2]
   \<and> [1, 2] \<noteq> rev [1::nat, 2]"
  by (simp add: registered_def traced_def)

theorem cleanupAll_array_order_witness:
  "cleanupAll (map traced (registered
      [Push (1::nat, None), Push (2, Some \<lparr> err_message = js ''ENOENT'', err_stack = [], err_props = [] \<rparr>),
       Unshift (3, None), Unshift (4, None)])) ([], [])
   = ([4, 3, 1, 2], [\<lparr> err_message = js ''ENOENT'', err_stack = [], err_props = [] \<rparr>])"
  using cleanupAll_array_order [of "[Push (1::nat, None),
       Push (2, Some \<lparr> err_message = js ''ENOENT'', err_stack = [], err_props = [] \<rparr>),
       Unshift (3, None), Unshift (4, None)]"]
  by simp

subsection \<open>rewriteUris\<close>

lemma rewriteUris_no_uri:
  "\<not> has_uri m \<Longrightarrow> rewriteUris new t m = (None, m)"
  "\<not> has_uri_values ps \<Longrightarrow> rewriteUris_values new t ps = (None, ps)"
  "\<not> has_uri_elements xs \<Longrightarrow> rewriteUris_elements new t xs = (None, xs)"
  by (induction m and ps and xs rule: has_uri_has_uri_values_has_uri_elements.induct) simp_all









lemma js_neq_uri [simp]:
  "js ''method'' \<noteq> js ''uri''" "js ''id'' \<noteq> js ''uri''"
  by simp_all


subsection \<open>The handler of client messages\<close>

lemma span_of_message_fields [simp]:
  "fileRootUri (fst (span_of_message m st)) = fileRootUri st"
  "zipRootUri (fst (span_of_message m st)) = zipRootUri st"
  "extractPath (fst (span_of_message m st)) = extractPath st"
  "connectionCleanupFns (fst (span_of_message m st)) = connectionCleanupFns st"
  by (simp_all add: span_of_message_def startSpan_def setTag_def update_span_def Let_def
      split: option.splits prod.splits)


lemma handle_client_message_other:
  assumes "\<not> (isRequestMessage m \<and> message_method m = js ''initialize'')"
  shows "handle_client_message e st m =
     (case rewriteUris (new_URL e) (transformZipToFileUri e (fst (span_of_message m st))) m of
        (Some err, m') \<Rightarrow>
          catch_error (snd (span_of_message m st)) m' err (fst (span_of_message m st), [])
      | (None, m') \<Rightarrow> (fst (span_of_message m st), [ToWorker m']))"
  using assms
  by (cases "span_of_message m st")
    (auto simp add: handle_client_message_def split: prod.splits option.splits)

lemma snd_catch_error:
  "snd (catch_error span m err (st, evs)) =
     evs @ [LoggerError [Text (js ''Error handling message'' @ [0x0A]), Value m, Text [0x0A], Thrown err]]
     @ (if isRequestMessage m then [ToClient (error_response m err)] else [])"
  by (simp add: catch_error_def Let_def)



lemma shutdown_message_facts:
  "isRequestMessage shutdown_message" "message_method shutdown_message = js ''shutdown''"
  "\<not> has_uri shutdown_message"
  by (simp_all add: shutdown_message_def isRequestMessage_def message_method_def)





subsection \<open>The pending spans\<close>

lemma requestSpans_update_span [simp]:
  "requestSpans (update_span r f st) = requestSpans st"
  "requestSpans (setTag r k v st) = requestSpans st"
  "requestSpans (span_log r err st) = requestSpans st"
  "requestSpans (finish r st) = requestSpans st"
  by (simp_all add: update_span_def setTag_def span_log_def finish_def)

lemma requestSpans_span_of_message:
  "requestSpans (fst (span_of_message m st)) =
     (if isRequestMessage m then (requestSpans st)(message_id m \<mapsto> Suc (length (spans st)))
      else requestSpans st)"
  by (simp add: span_of_message_def startSpan_def Let_def split: option.splits)

lemma requestSpans_check_root [simp]:
  "requestSpans (snd (check_root e span params st)) = requestSpans st"
  by (simp add: check_root_def Let_def split: sum.splits)

lemma requestSpans_initialize_checks [simp]:
  "requestSpans (snd (initialize_checks e span m st)) = requestSpans st"
  by (simp add: initialize_checks_def split: option.splits json.splits sum.splits bool.splits)

lemma requestSpans_materialize [simp]:
  "requestSpans (fst (snd (materialize e z st))) = requestSpans st"
  by (simp add: materialize_def Let_def split: option.splits sum.splits download.splits)

lemma requestSpans_install_dependencies [simp]:
  "requestSpans (fst (install_dependencies e ps st)) = requestSpans st"
  by (simp add: install_dependencies_def Let_def)

lemma requestSpans_rewrite_root [simp]:
  "requestSpans (fst (rewrite_root e m st)) = requestSpans st"
  by (simp add: rewrite_root_def Let_def)

lemma requestSpans_intercept_initialize [simp]:
  "requestSpans (fst (snd (intercept_initialize e span m st))) = requestSpans st"
proof -
  obtain r st1 where c: "initialize_checks e span m st = (r, st1)"
    by (cases "initialize_checks e span m st")
  have st1: "requestSpans st1 = requestSpans st"
    using requestSpans_initialize_checks [of e span m st] c by simp
  show ?thesis
  proof (cases r)
    case (Some err)
    then show ?thesis using c st1 by (simp add: intercept_initialize_def)
  next
    case None
    show ?thesis
    proof (cases "zipRootUri st1")
      case None
      then show ?thesis using c st1 \<open>r = None\<close> by (simp add: intercept_initialize_def)
    next
      case (Some z)
      obtain res st2 evs where mat: "materialize e z st1 = (res, st2, evs)"
        by (cases "materialize e z st1")
      have st2: "requestSpans st2 = requestSpans st"
        using requestSpans_materialize [of e z st1] mat st1 by simp
      show ?thesis
      proof (cases res)
        case (Throws err)
        then show ?thesis using c \<open>r = None\<close> Some mat st2 by (simp add: intercept_initialize_def)
      next
        case (Exits err)
        then show ?thesis using c \<open>r = None\<close> Some mat st2 by (simp add: intercept_initialize_def)
      next
        case (Returns paths)
        obtain st3 evs3 where ins: "install_dependencies e paths st2 = (st3, evs3)"
          by (cases "install_dependencies e paths st2")
        have st3: "requestSpans st3 = requestSpans st"
          using requestSpans_install_dependencies [of e paths st2] ins st2 by simp
        obtain st4 m4 where rr: "rewrite_root e m st3 = (st4, m4)"
          by (cases "rewrite_root e m st3")
        have "requestSpans st4 = requestSpans st"
          using requestSpans_rewrite_root [of e m st3] rr st3 by simp
        then show ?thesis
          using c \<open>r = None\<close> Some mat Returns ins rr by (simp add: intercept_initialize_def)
      qed
    qed
  qed
qed

lemma requestSpans_catch_error [simp]:
  "requestSpans (fst (catch_error span m err s)) = requestSpans (fst s)"
  by (cases s) (simp add: catch_error_def Let_def)

lemma requestSpans_handle_client_message:
  "requestSpans (fst (handle_client_message e st m)) = requestSpans (fst (span_of_message m st))"
proof -
  obtain st1 span where sp: "span_of_message m st = (st1, span)"
    by (cases "span_of_message m st")
  show ?thesis
  proof (cases "isRequestMessage m \<and> message_method m = js ''initialize''")
    case True
    obtain r st2 evs where ii: "intercept_initialize e span m st1 = (r, st2, evs)"
      by (cases "intercept_initialize e span m st1") auto
    have st2: "requestSpans st2 = requestSpans st1"
      using requestSpans_intercept_initialize [of e span m st1] ii by simp
    show ?thesis
      using True sp ii st2
      by (auto simp add: handle_client_message_def split: option.splits prod.splits completion.splits)
  next
    case False
    then show ?thesis
      using sp by (auto simp add: handle_client_message_other split: option.splits prod.splits)
  qed
qed

lemma message_id_set_prop:
  "k \<noteq> js ''id'' \<Longrightarrow> message_id (set_prop k v m) = message_id m"
  by (cases m) (simp_all add: set_prop_def message_id_def update_conv')

lemma finish_span_of_response_requestSpans:
  "requestSpans (fst (finish_span_of_response e w st)) =
     (if isResponseMessage w \<and> property w (js ''id'') \<noteq> Some JNull
      then (requestSpans st)(message_id w := None) else requestSpans st)"
proof -
  have "js ''_trace'' \<noteq> js ''id''" by simp
  then have "message_id (set_prop (js ''_trace'') v w) = message_id w" for v
    by (rule message_id_set_prop)
  then show ?thesis
    by (auto simp add: finish_span_of_response_def Let_def split: option.splits)
qed

lemma finish_span_of_response_finished:
  assumes "isResponseMessage w" "property w (js ''id'') \<noteq> Some JNull"
    "requestSpans st (message_id w) = Some r" "r < length (spans st)"
  shows "finished (spans (fst (finish_span_of_response e w st)) ! r)"
  using assms
  by (simp add: finish_span_of_response_def Let_def finish_def update_span_def split: option.splits)

lemma fst_handle_worker_message:
  "fst (handle_worker_message e st w) = fst (finish_span_of_response e w st)"
  by (simp add: handle_worker_message_def split: prod.splits option.splits)

lemma isResponseMessage_id:
  "isResponseMessage w \<Longrightarrow> property w (js ''id'') = Some (message_id w)"
  by (cases "property w (js ''id'')") (auto simp add: isResponseMessage_def message_id_def)

text \<open>
  C9. A request leaves an entry under its id in the map of pending spans, whatever
  becomes of the request; a notification leaves the map as it was, and no client
  message removes an entry. A worker message adds no entry, and it removes the entry of
  \<open>i\<close> exactly when it is a response with the id \<open>i\<close>; the span is then finished.
\<close>

theorem span_correlation:
  "(isRequestMessage m \<longrightarrow> requestSpans (fst (handle_client_message e st m)) (message_id m) \<noteq> None)
   \<and> (isNotificationMessage m \<longrightarrow> requestSpans (fst (handle_client_message e st m)) = requestSpans st)
   \<and> (requestSpans st i \<noteq> None \<longrightarrow> requestSpans (fst (handle_client_message e st m)) i \<noteq> None)
   \<and> (requestSpans st i = None \<longrightarrow> requestSpans (fst (handle_worker_message e st w)) i = None)
   \<and> (requestSpans st i = Some r \<and> i \<noteq> JNull \<longrightarrow>
        (requestSpans (fst (handle_worker_message e st w)) i = None
           \<longleftrightarrow> isResponseMessage w \<and> property w (js ''id'') = Some i)
        \<and> (isResponseMessage w \<and> property w (js ''id'') = Some i \<and> r < length (spans st)
             \<longrightarrow> finished (spans (fst (handle_worker_message e st w)) ! r)))"
proof (intro conjI impI)
  show "requestSpans (fst (handle_client_message e st m)) (message_id m) \<noteq> None"
    if "isRequestMessage m"
    using that by (simp add: requestSpans_handle_client_message requestSpans_span_of_message)
  show "requestSpans (fst (handle_client_message e st m)) = requestSpans st"
    if "isNotificationMessage m"
  proof -
    have "\<not> isRequestMessage m"
      using that by (auto simp add: isNotificationMessage_def isRequestMessage_def)
    then show ?thesis
      by (simp add: requestSpans_handle_client_message requestSpans_span_of_message)
  qed
  show "requestSpans (fst (handle_client_message e st m)) i \<noteq> None"
    if "requestSpans st i \<noteq> None"
    using that by (simp add: requestSpans_handle_client_message requestSpans_span_of_message)
  show "requestSpans (fst (handle_worker_message e st w)) i = None"
    if "requestSpans st i = None"
    using that by (simp add: fst_handle_worker_message finish_span_of_response_requestSpans)
next
  assume a: "requestSpans st i = Some r \<and> i \<noteq> JNull"
  show "requestSpans (fst (handle_worker_message e st w)) i = None
          \<longleftrightarrow> isResponseMessage w \<and> property w (js ''id'') = Some i"
    using a isResponseMessage_id [of w]
    by (auto simp add: fst_handle_worker_message finish_span_of_response_requestSpans)
next
  assume a: "requestSpans st i = Some r \<and> i \<noteq> JNull"
    and b: "isResponseMessage w \<and> property w (js ''id'') = Some i \<and> r < length (spans st)"
  have "message_id w = i" using b by (simp add: message_id_def)
  then show "finished (spans (fst (handle_worker_message e st w)) ! r)"
    using a b finish_span_of_response_finished [of w st r e]
    by (simp add: fst_handle_worker_message)
qed

theorem span_correlation_witness:
  "isRequestMessage shutdown_message \<and> message_id shutdown_message = JNum 1
   \<and> requestSpans (fst on_connection) (JNum 1) = None
   \<and> requestSpans session_after_shutdown (JNum 1) = Some 1
   \<and> isNotificationMessage exit_notification
   \<and> requestSpans (fst (handle_client_message example_env session_after_shutdown exit_notification)) (JNum 1) = Some 1
   \<and> isResponseMessage shutdown_response
   \<and> 1 < length (spans session_after_shutdown)
   \<and> requestSpans (fst (handle_worker_message example_env session_after_shutdown shutdown_response)) (JNum 1) = None
   \<and> finished (spans (fst (handle_worker_message example_env session_after_shutdown shutdown_response)) ! 1)
   \<and> requestSpans (fst (handle_worker_message example_env session_after_shutdown exit_notification)) (JNum 1) \<noteq> None"
proof -
  have req: "isRequestMessage shutdown_message" "message_id shutdown_message = JNum 1"
    by (simp_all add: shutdown_message_def isRequestMessage_def message_id_def)
  have empty: "requestSpans (fst on_connection) (JNum 1) = None" "spans (fst on_connection) = []"
    by (simp_all add: on_connection_def)
  have entry: "requestSpans session_after_shutdown (JNum 1) = Some 1"
    using req empty
    by (simp add: session_after_shutdown_def requestSpans_handle_client_message
        requestSpans_span_of_message)
  have ntf: "isNotificationMessage exit_notification"
    by (simp add: exit_notification_def isNotificationMessage_def)
  have resp: "isResponseMessage shutdown_response" "property shutdown_response (js ''id'') = Some (JNum 1)"
    by (simp_all add: shutdown_response_def isResponseMessage_def)
  have noresp: "\<not> isResponseMessage exit_notification"
    by (simp add: exit_notification_def isResponseMessage_def)
  have other: "\<not> (isRequestMessage shutdown_message \<and> message_method shutdown_message = js ''initialize'')"
    by (simp add: shutdown_message_facts)
  have eq: "session_after_shutdown = fst (span_of_message shutdown_message (fst on_connection))"
    by (simp add: session_after_shutdown_def handle_client_message_other [OF other]
        rewriteUris_no_uri shutdown_message_facts)
  have "1 < length (spans (fst (span_of_message shutdown_message (fst on_connection))))"
    using req
    by (simp add: span_of_message_def startSpan_def setTag_def update_span_def Let_def
        on_connection_def)
  then have len: "1 < length (spans session_after_shutdown)"
    unfolding eq .
  show ?thesis
    using span_correlation [of exit_notification example_env session_after_shutdown "JNum 1" shutdown_response 1]
      span_correlation [of exit_notification example_env session_after_shutdown "JNum 1" exit_notification 1]
      req empty entry ntf resp noresp len
    by simp
qed

subsection \<open>The interception of initialize\<close>

lemma all_events_simps [simp]:
  "all_events [] = []"
  "all_events (ev # evs) = events_of ev @ all_events evs"
  "all_events (xs @ ys) = all_events xs @ all_events ys"
  by (simp_all add: all_events_def)

lemma materialize_no_wire:
  "\<forall>ev \<in> set (all_events (snd (snd (materialize e z st)))). \<not> on_wire ev"
  by (simp add: materialize_def Let_def split: option.splits sum.splits download.splits)

lemma install_package_no_wire:
  "\<forall>ev \<in> set (all_events (fst (install_package e st p))). \<not> on_wire ev"
  by (simp add: install_package_def install_failed_def Let_def split: option.splits)

lemma install_dependencies_no_wire:
  "\<forall>ev \<in> set (all_events (snd (install_dependencies e ps st))). \<not> on_wire ev"
  using install_package_no_wire [of e st]
  by (auto simp add: install_dependencies_def Let_def all_events_def)

lemma intercept_initialize_cases:
  obtains (checks) err st1 where "initialize_checks e span m st = (Some err, st1)"
      "intercept_initialize e span m st = (Throws err, st1, [])"
    | (no_root) st1 where "initialize_checks e span m st = (None, st1)" "zipRootUri st1 = None"
      "intercept_initialize e span m st = (Throws (TypeError_undefined (js ''hostname'')), st1, [])"
    | (thrown) st1 z err st2 evs where "initialize_checks e span m st = (None, st1)"
      "zipRootUri st1 = Some z" "materialize e z st1 = (Throws err, st2, evs)"
      "intercept_initialize e span m st = (Throws err, st2, evs)"
    | (exits) st1 z err st2 evs where "initialize_checks e span m st = (None, st1)"
      "zipRootUri st1 = Some z" "materialize e z st1 = (Exits err, st2, evs)"
      "intercept_initialize e span m st = (Exits err, st2, evs)"
    | (installed) st1 z paths st2 evs where "initialize_checks e span m st = (None, st1)"
      "zipRootUri st1 = Some z" "materialize e z st1 = (Returns paths, st2, evs)"
      "intercept_initialize e span m st =
         (Returns (snd (rewrite_root e m (fst (install_dependencies e paths st2)))),
          fst (rewrite_root e m (fst (install_dependencies e paths st2))),
          evs @ snd (install_dependencies e paths st2))"
proof -
  obtain r st1 where c: "initialize_checks e span m st = (r, st1)"
    by (cases "initialize_checks e span m st")
  show thesis
  proof (cases r)
    case (Some err)
    then show ?thesis using c checks by (simp add: intercept_initialize_def)
  next
    case None
    show ?thesis
    proof (cases "zipRootUri st1")
      case no: None
      then show ?thesis using c None no_root by (simp add: intercept_initialize_def)
    next
      case (Some z)
      obtain res st2 evs where mat: "materialize e z st1 = (res, st2, evs)"
        by (cases "materialize e z st1")
      show ?thesis
      proof (cases res)
        case (Throws err)
        then show ?thesis using c None Some mat thrown by (simp add: intercept_initialize_def)
      next
        case (Exits err)
        then show ?thesis using c None Some mat exits by (simp add: intercept_initialize_def)
      next
        case (Returns paths)
        then show ?thesis
          using c None Some mat installed [of st1 z paths st2 evs]
          by (simp add: intercept_initialize_def split: prod.splits)
      qed
    qed
  qed
qed

lemma intercept_initialize_no_wire:
  "\<forall>ev \<in> set (all_events (snd (snd (intercept_initialize e span m st)))). \<not> on_wire ev"
proof (cases rule: intercept_initialize_cases [of e span m st])
  case (thrown st1 z err st2 evs)
  then show ?thesis using materialize_no_wire [of e z st1] by simp
next
  case (exits st1 z err st2 evs)
  then show ?thesis using materialize_no_wire [of e z st1] by simp
next
  case (installed st1 z paths st2 evs)
  then show ?thesis
    using materialize_no_wire [of e z st1] install_dependencies_no_wire [of e paths st2]
    by auto
qed simp_all

lemma handle_client_message_initialize_thrown:
  assumes "isRequestMessage m" "message_method m = js ''initialize''"
    and "fst (intercept_initialize e (snd (span_of_message m st)) m (fst (span_of_message m st))) = Throws err"
  shows "snd (handle_client_message e st m) =
     snd (snd (intercept_initialize e (snd (span_of_message m st)) m (fst (span_of_message m st))))
     @ [LoggerError [Text (js ''Error handling message'' @ [0x0A]), Value m, Text [0x0A], Thrown err],
        ToClient (error_response m err)]"
proof -
  obtain st1 span where sp: "span_of_message m st = (st1, span)"
    by (cases "span_of_message m st")
  obtain r st2 evs where ii: "intercept_initialize e span m st1 = (r, st2, evs)"
    by (cases "intercept_initialize e span m st1") auto
  have "r = Throws err" using assms(3) sp ii by simp
  then show ?thesis
    using assms(1,2) sp ii by (simp add: handle_client_message_def snd_catch_error)
qed

lemma handle_client_message_initialize_exits:
  assumes "isRequestMessage m" "message_method m = js ''initialize''"
    and "fst (intercept_initialize e (snd (span_of_message m st)) m (fst (span_of_message m st))) = Exits err"
  shows "snd (handle_client_message e st m) =
     snd (snd (intercept_initialize e (snd (span_of_message m st)) m (fst (span_of_message m st))))
     @ [UncaughtException err]"
proof -
  obtain st1 span where sp: "span_of_message m st = (st1, span)"
    by (cases "span_of_message m st")
  obtain r st2 evs where ii: "intercept_initialize e span m st1 = (r, st2, evs)"
    by (cases "intercept_initialize e span m st1") auto
  have "r = Exits err" using assms(3) sp ii by simp
  then show ?thesis
    using assms(1,2) sp ii by (simp add: handle_client_message_def)
qed

lemma to_worker_on_wire: "to_worker ev \<Longrightarrow> on_wire ev"
  by (cases ev) simp_all

lemma to_client_on_wire: "to_client ev \<Longrightarrow> on_wire ev"
  by (cases ev) simp_all

text \<open>From the causes of the claims to what the interception does.\<close>

lemma zipRootUri_setTag [simp]: "zipRootUri (setTag r k v st) = zipRootUri st"
  by (simp add: setTag_def update_span_def)

lemma initialize_checks_invalid_root:
  assumes "invalid_root e m"
  shows "\<exists>err. fst (initialize_checks e span m st) = Some err"
proof (cases "property m (js ''params'')")
  case None
  then show ?thesis by (simp add: initialize_checks_def)
next
  case (Some params)
  show ?thesis
  proof (cases "truthy_prop (property params (js ''rootUri''))")
    case False
    then show ?thesis
      using Some by (cases params) (auto simp add: initialize_checks_def truthy_prop_def)
  next
    case True
    then obtain r where r: "property params (js ''rootUri'') = Some r" "truthy r"
      by (auto simp add: truthy_prop_def split: option.splits)
    have root: "\<exists>err. fst (check_root e span params st) = Some err"
      using assms Some r
      by (auto simp add: invalid_root_def check_root_def Let_def split: sum.splits)
    have "params \<noteq> JNull" using r(1) by auto
    then show ?thesis
      using Some True root
      by (cases params) (auto simp add: initialize_checks_def split: sum.splits bool.splits)
  qed
qed

lemma initialize_checks_valid_root:
  assumes "valid_root e m z" "folders_accepted e m"
  shows "initialize_checks e span m st =
           (None, setTag span (js ''rootUri'') (JStr (href z)) (st\<lparr> zipRootUri := Some z \<rparr>))"
proof -
  obtain params r where p: "property m (js ''params'') = Some params"
      "property params (js ''rootUri'') = Some r" "truthy r" "new_URL e r = Inr z"
      "endsWith (pathname z) (js ''.zip'')" "protocol z = js ''http:'' \<or> protocol z = js ''https:''"
    using assms(1) by (auto simp add: valid_root_def split: option.splits)
  have root: "check_root e span params st =
           (None, setTag span (js ''rootUri'') (JStr (href z)) (st\<lparr> zipRootUri := Some z \<rparr>))"
    using p by (auto simp add: check_root_def Let_def)
  have folders: "truthy_prop (property params (js ''workspaceFolders'')) \<Longrightarrow>
      length_gt_1 e (the (property params (js ''workspaceFolders''))) = Inr False"
    using assms(2) p(1)
    by (auto simp add: folders_accepted_def workspace_folders_def truthy_prop_def split: option.splits)
  have "params \<noteq> JNull" using p(2) by auto
  then show ?thesis
    using p(1,2,3) root folders
    by (cases params) (auto simp add: initialize_checks_def truthy_prop_def)
qed

lemma materialize_write_fails:
  "temp_dirs_made e z \<Longrightarrow> write_fails e z err \<Longrightarrow> fst (materialize e z st) = Throws err"
  by (simp add: materialize_def temp_dirs_made_def write_fails_def archive_path_def Let_def)

lemma materialize_extraction_fails:
  "temp_dirs_made e z \<Longrightarrow> extraction_fails e z err \<Longrightarrow> fst (materialize e z st) = Throws err"
  by (auto simp add: materialize_def temp_dirs_made_def extraction_fails_def downloaded_def
      archive_path_def extract_path_def Let_def split: download.splits)

lemma materialize_request_fails:
  "temp_dirs_made e z \<Longrightarrow> request e (href z) (archive_path e z) = RequestFailed err \<Longrightarrow>
   fst (materialize e z st) = Exits err"
  by (simp add: materialize_def temp_dirs_made_def archive_path_def Let_def)

lemma intercept_initialize_materialize:
  assumes "valid_root e m z" "folders_accepted e m"
  shows "fst (materialize e z (setTag span (js ''rootUri'') (JStr (href z)) (st\<lparr> zipRootUri := Some z \<rparr>))) = Throws err
         \<Longrightarrow> fst (intercept_initialize e span m st) = Throws err"
    and "fst (materialize e z (setTag span (js ''rootUri'') (JStr (href z)) (st\<lparr> zipRootUri := Some z \<rparr>))) = Exits err
         \<Longrightarrow> fst (intercept_initialize e span m st) = Exits err"
  using initialize_checks_valid_root [OF assms, of span st]
  by (auto simp add: intercept_initialize_def split: prod.splits completion.splits)

lemma intercept_initialize_invalid_root:
  assumes "invalid_root e m"
  shows "\<exists>err. intercept_initialize e span m st = (Throws err, snd (initialize_checks e span m st), [])"
proof -
  obtain err where "fst (initialize_checks e span m st) = Some err"
    using initialize_checks_invalid_root [OF assms] by blast
  then show ?thesis
    by (cases "initialize_checks e span m st") (simp add: intercept_initialize_def)
qed

text \<open>
  C4, as the source has it. The worker is spawned when the connection is accepted,
  before any message. For an initialize request with an invalid root, the handler logs
  the error and answers the request with an error response, and does nothing else. For
  one with a valid root, when the temporary directories were made and then the file of
  the archive cannot be written or the archive cannot be extracted, nothing is written
  to the worker, and the handler ends with logging that error and answering the request
  with an error response for it.
\<close>

theorem failed_materialization:
  assumes "isRequestMessage m" "message_method m = js ''initialize''"
  shows "snd on_connection = [SpawnWorker]
       \<and> (invalid_root e m \<longrightarrow>
            (\<exists>err. snd (handle_client_message e st m) =
               [LoggerError [Text (js ''Error handling message'' @ [0x0A]), Value m, Text [0x0A], Thrown err],
                ToClient (error_response m err)]))
       \<and> (\<forall>z err. valid_root e m z \<and> folders_accepted e m \<and> temp_dirs_made e z
                  \<and> (write_fails e z err \<or> extraction_fails e z err) \<longrightarrow>
            (\<forall>ev \<in> set (all_events (snd (handle_client_message e st m))). \<not> to_worker ev)
            \<and> (\<exists>evs. snd (handle_client_message e st m) =
                  evs @ [LoggerError [Text (js ''Error handling message'' @ [0x0A]), Value m, Text [0x0A], Thrown err],
                         ToClient (error_response m err)]))"
proof (intro conjI impI allI)
  let ?st = "fst (span_of_message m st)"
  let ?span = "snd (span_of_message m st)"
  show "snd on_connection = [SpawnWorker]"
    by (simp add: on_connection_def)
  show "\<exists>err. snd (handle_client_message e st m) =
               [LoggerError [Text (js ''Error handling message'' @ [0x0A]), Value m, Text [0x0A], Thrown err],
                ToClient (error_response m err)]"
    if inv: "invalid_root e m"
  proof -
    obtain err where ii: "intercept_initialize e ?span m ?st = (Throws err, snd (initialize_checks e ?span m ?st), [])"
      using intercept_initialize_invalid_root [OF inv] by blast
    then have "fst (intercept_initialize e ?span m ?st) = Throws err" by simp
    then show ?thesis
      using handle_client_message_initialize_thrown [OF assms, of e st err] ii by simp
  qed
  fix z err
  assume a: "valid_root e m z \<and> folders_accepted e m \<and> temp_dirs_made e z
                  \<and> (write_fails e z err \<or> extraction_fails e z err)"
  let ?st1 = "setTag ?span (js ''rootUri'') (JStr (href z)) (?st\<lparr> zipRootUri := Some z \<rparr>)"
  have "fst (materialize e z ?st1) = Throws err"
    using a materialize_write_fails [of e z err ?st1] materialize_extraction_fails [of e z err ?st1]
    by blast
  then have "fst (intercept_initialize e ?span m ?st) = Throws err"
    using a intercept_initialize_materialize(1) [of e m z ?span ?st err] by blast
  note evs = handle_client_message_initialize_thrown [OF assms this]
  show "\<forall>ev \<in> set (all_events (snd (handle_client_message e st m))). \<not> to_worker ev"
    using intercept_initialize_no_wire [of e ?span m ?st] to_worker_on_wire
    by (auto simp add: evs)
  show "\<exists>evs. snd (handle_client_message e st m) =
                  evs @ [LoggerError [Text (js ''Error handling message'' @ [0x0A]), Value m, Text [0x0A], Thrown err],
                         ToClient (error_response m err)]"
    using evs by blast
qed

text \<open>
  What the corrected claim leaves out: when the request of the download emits an error
  (the connection is reset, the host is not found), the exception is not caught. The
  request is not answered and nothing is written to the worker.
\<close>

lemma request_error_uncaught:
  assumes "isRequestMessage m" "message_method m = js ''initialize''"
    and "valid_root e m z" "folders_accepted e m" "temp_dirs_made e z"
    and "request e (href z) (archive_path e z) = RequestFailed err"
  shows "last (snd (handle_client_message e st m)) = UncaughtException err
       \<and> (\<forall>ev \<in> set (all_events (snd (handle_client_message e st m))). \<not> on_wire ev)"
proof -
  let ?st = "fst (span_of_message m st)"
  let ?span = "snd (span_of_message m st)"
  let ?st1 = "setTag ?span (js ''rootUri'') (JStr (href z)) (?st\<lparr> zipRootUri := Some z \<rparr>)"
  have "fst (materialize e z ?st1) = Exits err"
    using assms(5,6) by (rule materialize_request_fails)
  then have "fst (intercept_initialize e ?span m ?st) = Exits err"
    using intercept_initialize_materialize(2) [OF assms(3,4)] by blast
  note evs = handle_client_message_initialize_exits [OF assms(1,2) this]
  show ?thesis
    using intercept_initialize_no_wire [of e ?span m ?st] by (auto simp add: evs)
qed

lemma initialize_message_facts:
  "isRequestMessage (initialize_message folders)"
  "message_method (initialize_message folders) = js ''initialize''"
  "message_id (initialize_message folders) = JNum 0"
  by (simp_all add: initialize_message_def isRequestMessage_def message_method_def message_id_def)

lemma example_valid_root:
  "new_URL e = example_new_URL \<Longrightarrow>
   valid_root e (initialize_message folders) (http_url (js ''example.com'') (js ''/repo.zip'') None)"
  by (simp add: valid_root_def initialize_message_def example_new_URL_def http_url_def endsWith_def)

lemma example_folders_accepted:
  "folders_accepted e (initialize_message (JArr []))"
  by (simp add: folders_accepted_def workspace_folders_def initialize_message_def)

lemma extraction_fails_env_facts:
  "new_URL extraction_fails_env = example_new_URL"
  "temp_dirs_made extraction_fails_env z"
  "extraction_fails extraction_fails_env z (Error (js ''End of central directory record signature not found''))"
  by (simp_all add: extraction_fails_env_def example_env_def temp_dirs_made_def extraction_fails_def
      downloaded_def)

text \<open>
  A session whose archive cannot be extracted: the worker was spawned on connection,
  then the handshake is answered with the error.
\<close>

theorem worker_spawned_counterexample:
  "SpawnWorker \<in> set (snd on_connection
      @ snd (handle_client_message extraction_fails_env (fst on_connection) (initialize_message (JArr []))))
   \<and> last (snd (handle_client_message extraction_fails_env (fst on_connection) (initialize_message (JArr []))))
       = ToClient (error_response (initialize_message (JArr []))
           (Error (js ''End of central directory record signature not found'')))"
proof -
  let ?e = extraction_fails_env
  let ?m = "initialize_message (JArr [])"
  let ?z = "http_url (js ''example.com'') (js ''/repo.zip'') None"
  let ?err = "Error (js ''End of central directory record signature not found'')"
  let ?st = "fst (span_of_message ?m (fst on_connection))"
  let ?span = "snd (span_of_message ?m (fst on_connection))"
  let ?st1 = "setTag ?span (js ''rootUri'') (JStr (href ?z)) (?st\<lparr> zipRootUri := Some ?z \<rparr>)"
  have "SpawnWorker \<in> set (snd on_connection)"
    by (simp add: on_connection_def)
  moreover have "fst (materialize ?e ?z ?st1) = Throws ?err"
    using extraction_fails_env_facts(2,3) by (rule materialize_extraction_fails)
  then have "fst (intercept_initialize ?e ?span ?m ?st) = Throws ?err"
    using intercept_initialize_materialize(1)
      [OF example_valid_root [OF extraction_fails_env_facts(1)] example_folders_accepted]
    by blast
  then have "last (snd (handle_client_message ?e (fst on_connection) ?m)) = ToClient (error_response ?m ?err)"
    using handle_client_message_initialize_thrown [OF initialize_message_facts(1,2)] by simp
  ultimately show ?thesis by simp
qed

theorem failed_materialization_witness:
  "isRequestMessage (initialize_message (JArr []))
   \<and> message_method (initialize_message (JArr [])) = js ''initialize''
   \<and> valid_root extraction_fails_env (initialize_message (JArr [])) (http_url (js ''example.com'') (js ''/repo.zip'') None)
   \<and> extraction_fails extraction_fails_env (http_url (js ''example.com'') (js ''/repo.zip'') None)
       (Error (js ''End of central directory record signature not found''))
   \<and> snd on_connection = [SpawnWorker]
   \<and> list_all (\<lambda>ev. \<not> to_worker ev)
       (all_events (snd (handle_client_message extraction_fails_env (fst on_connection) (initialize_message (JArr [])))))
   \<and> (\<exists>evs. snd (handle_client_message extraction_fails_env (fst on_connection) (initialize_message (JArr []))) =
         evs @ [LoggerError [Text (js ''Error handling message'' @ [0x0A]), Value (initialize_message (JArr [])),
                   Text [0x0A], Thrown (Error (js ''End of central directory record signature not found''))],
                ToClient (error_response (initialize_message (JArr []))
                   (Error (js ''End of central directory record signature not found'')))])
   \<and> isRequestMessage rootless_initialize \<and> message_method rootless_initialize = js ''initialize''
   \<and> invalid_root example_env rootless_initialize
   \<and> (\<exists>err. snd (handle_client_message example_env (fst on_connection) rootless_initialize) =
         [LoggerError [Text (js ''Error handling message'' @ [0x0A]), Value rootless_initialize, Text [0x0A], Thrown err],
          ToClient (error_response rootless_initialize err)])"
proof -
  let ?e = extraction_fails_env
  let ?m = "initialize_message (JArr [])"
  let ?z = "http_url (js ''example.com'') (js ''/repo.zip'') None"
  let ?err = "Error (js ''End of central directory record signature not found'')"
  note req = initialize_message_facts(1,2) [of "JArr []"]
  note t = failed_materialization [OF req, where e = ?e and st = "fst on_connection"]
  have valid: "valid_root ?e ?m ?z"
    using extraction_fails_env_facts(1) by (rule example_valid_root)
  have causes: "valid_root ?e ?m ?z \<and> folders_accepted ?e ?m \<and> temp_dirs_made ?e ?z
      \<and> (write_fails ?e ?z ?err \<or> extraction_fails ?e ?z ?err)"
    using valid example_folders_accepted [of ?e] extraction_fails_env_facts(2,3) [of ?z] by simp
  have spawn: "snd on_connection = [SpawnWorker]"
    using t by blast
  have ext: "(\<forall>ev \<in> set (all_events (snd (handle_client_message ?e (fst on_connection) ?m))). \<not> to_worker ev)
      \<and> (\<exists>evs. snd (handle_client_message ?e (fst on_connection) ?m) =
            evs @ [LoggerError [Text (js ''Error handling message'' @ [0x0A]), Value ?m, Text [0x0A], Thrown ?err],
                   ToClient (error_response ?m ?err)])"
    using t causes by blast
  have less: "isRequestMessage rootless_initialize" "message_method rootless_initialize = js ''initialize''"
    "invalid_root example_env rootless_initialize"
    by (simp_all add: rootless_initialize_def isRequestMessage_def message_method_def invalid_root_def)
  have "\<exists>err. snd (handle_client_message example_env (fst on_connection) rootless_initialize) =
         [LoggerError [Text (js ''Error handling message'' @ [0x0A]), Value rootless_initialize, Text [0x0A], Thrown err],
          ToClient (error_response rootless_initialize err)]"
    using failed_materialization [OF less(1,2), where e = example_env and st = "fst on_connection"] less(3)
    by blast
  then show ?thesis
    using req valid spawn ext less extraction_fails_env_facts(3) [of ?z] by (simp add: list_all_iff)
qed

subsection \<open>A handshake that is not refused\<close>


lemma install_dependencies_fields [simp]:
  "extractPath (fst (install_dependencies e ps st)) = extractPath st"
  "globalFolderRoot (fst (install_dependencies e ps st)) = globalFolderRoot st"
  "cacheFolderRoot (fst (install_dependencies e ps st)) = cacheFolderRoot st"
  by (simp_all add: install_dependencies_def Let_def)




lemma truthy_set_prop [simp]: "truthy (set_prop k v m) = truthy m"
  by (cases m) (simp_all add: set_prop_def)





subsection \<open>The example session\<close>






subsection \<open>The number of workspace folders\<close>












lemma wire_simps [simp]:
  "wire [] = []"
  "wire (xs @ ys) = wire xs @ wire ys"
  "wire (ToWorker m # evs) = ToWorker m # wire evs"
  "wire (ToClient m # evs) = ToClient m # wire evs"
  "wire (LoggerError as # evs) = wire evs"
  "wire (LoggerLog as # evs) = wire evs"
  "wire (UncaughtException err # evs) = wire evs"
  by (simp_all add: wire_def)












subsection \<open>The installations\<close>




lemma transformZipToFileUri_installer [simp]:
  "transformZipToFileUri (e\<lparr> filterDependencies := f, install := i \<rparr>) = transformZipToFileUri e"
  by (intro ext) (simp add: transformZipToFileUri_def cong: option.case_cong sum.case_cong)









end
